theory Spec2Isabelle
  imports Main "HOL-Library.Word" "HOL-Library.Signed_Division"
begin

unbundle bit_operations_syntax

section \<open>The Nikon R8/R10 infrared remote receiver and intervalometer (ATtiny85)\<close>

text \<open>
  The repository holds three revisions of one Arduino sketch for the ATtiny85:
  \<^item> revision A, the first sketch of \<^verbatim>\<open>src/Nikon_R_EA-1-RC-Intervalometer.ino\<close>
    (Apple remote only, no learning);
  \<^item> revision B, the second sketch of the same file (learning, with a garbage guard
    that is a conjunction);
  \<^item> revision C, \<^verbatim>\<open>src/Nikon_R_EA-1-RC-Intervalometer/Nikon_R_EA-1-RC-Intervalometer.ino\<close>
    (learning, with a garbage guard that is a disjunction).

  The target is an 8-bit AVR: \<^verbatim>\<open>byte\<close> is 8 bits, \<^verbatim>\<open>int\<close> and
  \<^verbatim>\<open>unsigned int\<close> are 16 bits, \<^verbatim>\<open>unsigned long\<close> is 32 bits. An
  \<^verbatim>\<open>int\<close> is a 16-bit word read through \<open>sint\<close>; signed overflow is modelled as
  two's-complement wrap-around, which is what the AVR's multiply and shift do.
\<close>

subsection \<open>Machine types\<close>

type_synonym byte = "8 word"
type_synonym int16 = "16 word"
type_synonym uint16 = "16 word"
type_synonym uint32 = "32 word"

text \<open>
  Arduino's macro
  \<^verbatim>\<open>#define constrain(amt,low,high) ((amt)<(low)?(low):((amt)>(high)?(high):(amt)))\<close>.
  Its arguments are given as the mathematical values of the already evaluated
  C expressions (the comparisons are signed comparisons).
\<close>

definition constrain :: "int \<Rightarrow> int \<Rightarrow> int \<Rightarrow> int" where
  "constrain amt low high = (if amt < low then low else if amt > high then high else amt)"

text \<open>
  C's \<^verbatim>\<open>/\<close> and \<^verbatim>\<open>%\<close> on two \<^verbatim>\<open>int\<close>s: the quotient truncates towards zero
  and the remainder has the sign of the dividend.
\<close>

definition int16_div :: "int16 \<Rightarrow> int16 \<Rightarrow> int16" where
  "int16_div a b = word_of_int (sint a sdiv sint b)"

definition int16_rem :: "int16 \<Rightarrow> int16 \<Rightarrow> int16" where
  "int16_rem a b = word_of_int (sint a smod sint b)"

text \<open>\<^verbatim>\<open>struct RC\<close>: the record kept in the EEPROM. Revision C names the last six
  fields CenterKey, MenuKey, UpKey, DownKey, LeftKey, RightKey; the layout is the same.\<close>

record RC =
  RcCode :: int16
  PlayKey :: byte
  OneFrameKey :: byte
  IntervalKey :: byte
  FasterKey :: byte
  SlowerKey :: byte
  DoubleSpeedKey :: byte
  HalfSpeedKey :: byte

text \<open>An erased EEPROM reads \<^verbatim>\<open>0xFF\<close> in every byte.\<close>

definition erased_rom :: RC where
  "erased_rom =
    \<lparr>RcCode = 0xFFFF, PlayKey = 0xFF, OneFrameKey = 0xFF, IntervalKey = 0xFF,
     FasterKey = 0xFF, SlowerKey = 0xFF, DoubleSpeedKey = 0xFF, HalfSpeedKey = 0xFF\<rparr>"

text \<open>What the firmware does to the outside world, in the order it does it.\<close>

datatype action =
    DigitalWrite nat bool
  | Delay_ms nat
  | EepromPut RC

subsection \<open>The state shared by all revisions\<close>

text \<open>
  The global variables of the sketch and the hardware registers it touches.
  \<open>pins\<close> are the output levels of port B (read back by \<^verbatim>\<open>digitalRead\<close>),
  \<open>TCNT0\<close> and \<open>TOV0\<close> the free-running counter 0 and its overflow flag,
  \<open>OCIE1A\<close> the timer-1 compare interrupt enable bit of \<^verbatim>\<open>TIMSK\<close>.
\<close>

record machine =
  pins :: "nat \<Rightarrow> bool"
  trace :: "action list"
  TCNT0 :: byte
  TOV0 :: bool
  OCIE1A :: bool
  OCR1C :: byte
  OCR1A :: byte
  irBits :: int16
  receivedData :: uint32
  oldIntervalStep :: byte
  newIntervalStep :: byte
  postscaler :: int16
  divider :: int16
  lmMode :: byte
  blinkFlag :: bool
  aluRemote :: bool

definition LM_MODE_1ST_SINGLESHOT :: byte where "LM_MODE_1ST_SINGLESHOT = 1"
definition LM_MODE_SUB_SINGLESHOT :: byte where "LM_MODE_SUB_SINGLESHOT = 2"

definition lightmeterPin :: nat where "lightmeterPin = 3"
definition startPin :: nat where "startPin = 4"
definition loadPin :: nat where "loadPin = 1"
definition holdPin :: nat where "holdPin = 0"
definition ledPin :: nat where "ledPin = 1"

definition digitalWrite :: "nat \<Rightarrow> bool \<Rightarrow> 'a machine_scheme \<Rightarrow> 'a machine_scheme" where
  "digitalWrite pin v s = s\<lparr>pins := (pins s)(pin := v), trace := trace s @ [DigitalWrite pin v]\<rparr>"

definition digitalRead :: "nat \<Rightarrow> 'a machine_scheme \<Rightarrow> bool" where
  "digitalRead pin s = pins s pin"

definition delay_ms :: "nat \<Rightarrow> 'a machine_scheme \<Rightarrow> 'a machine_scheme" where
  "delay_ms n s = s\<lparr>trace := trace s @ [Delay_ms n]\<rparr>"

text \<open>Statements run one after the other: \<open>seq [f, g] s = g (f s)\<close>.\<close>

definition seq :: "('s \<Rightarrow> 's) list \<Rightarrow> 's \<Rightarrow> 's" where
  "seq fs s = fold (\<lambda>f. f) fs s"

subsection \<open>The relay plays\<close>

definition blinkLED :: "'a machine_scheme \<Rightarrow> 'a machine_scheme" where
  "blinkLED = seq [digitalWrite ledPin True, delay_ms 20, digitalWrite ledPin False]"

definition blinkLEDtwice :: "'a machine_scheme \<Rightarrow> 'a machine_scheme" where
  "blinkLEDtwice = seq
     [digitalWrite ledPin True, delay_ms 50, digitalWrite ledPin False, delay_ms 150,
      digitalWrite ledPin True, delay_ms 50, digitalWrite ledPin False]"

definition startRunWithMetering :: "'a machine_scheme \<Rightarrow> 'a machine_scheme" where
  "startRunWithMetering = seq
     [digitalWrite lightmeterPin True, digitalWrite holdPin True, digitalWrite loadPin True,
      delay_ms 250, digitalWrite loadPin False, delay_ms 70, digitalWrite startPin True]"

definition stopRun :: "'a machine_scheme \<Rightarrow> 'a machine_scheme" where
  "stopRun = seq
     [digitalWrite startPin False, delay_ms 70, digitalWrite holdPin False,
      digitalWrite lightmeterPin False, digitalWrite ledPin True, delay_ms 250,
      digitalWrite ledPin False, (\<lambda>s. s\<lparr>lmMode := LM_MODE_1ST_SINGLESHOT\<rparr>)]"

definition meterOnce :: "'a machine_scheme \<Rightarrow> 'a machine_scheme" where
  "meterOnce = seq
     [digitalWrite lightmeterPin True, digitalWrite ledPin True, delay_ms 350,
      digitalWrite ledPin False, digitalWrite lightmeterPin False,
      (\<lambda>s. s\<lparr>lmMode := LM_MODE_SUB_SINGLESHOT\<rparr>)]"

text \<open>\<^verbatim>\<open>singleFrame\<close>; its second and third delay are 20 ms and 50 ms in revisions A
  and C, 10 ms and 20 ms in revision B.\<close>

definition singleFrame :: "nat \<Rightarrow> nat \<Rightarrow> 'a machine_scheme \<Rightarrow> 'a machine_scheme" where
  "singleFrame t2 t3 = seq
     [digitalWrite loadPin True, delay_ms 10, digitalWrite loadPin False,
      digitalWrite startPin True, delay_ms t2, digitalWrite startPin False,
      digitalWrite loadPin True, delay_ms t3, digitalWrite loadPin False]"

subsection \<open>The two interrupt handlers\<close>

text \<open>
  \<^verbatim>\<open>ISR(INT0_vect)\<close>, the same text in all three revisions. The dispatcher
  \<^verbatim>\<open>ReceivedCode\<close> it calls differs between the revisions and is a parameter.
  \<^verbatim>\<open>(unsigned long) 1 << irBits\<close> is only evaluated with \<open>irBits\<close> in 0..31.
\<close>

definition INT0_vect ::
  "(bool \<Rightarrow> 'a machine_scheme \<Rightarrow> 'a machine_scheme) \<Rightarrow> 'a machine_scheme \<Rightarrow> 'a machine_scheme"
where
  "INT0_vect ReceivedCode s =
    (let timeStamp = uint (TCNT0 s);
         overFlow = TOV0 s;
         s1 =
          (if irBits s = 32 then
             (if timeStamp \<ge> 194 \<and> timeStamp \<le> 228 \<and> \<not> overFlow then
                s\<lparr>receivedData := 0, irBits := 0\<rparr>
              else if timeStamp \<ge> 159 \<and> timeStamp \<le> 193 \<and> \<not> overFlow then
                ReceivedCode True s
              else s)
           else
             (if timeStamp > 44 \<or> overFlow then s\<lparr>irBits := 32\<rparr>
              else
                (let s2 = (if timeStamp > 26
                           then s\<lparr>receivedData :=
                                    receivedData s OR push_bit (unat (irBits s)) 1\<rparr>
                           else s);
                     s3 = (if irBits s2 = 31 then ReceivedCode False s2 else s2)
                 in s3\<lparr>irBits := irBits s3 + 1\<rparr>)))
     in s1\<lparr>TCNT0 := 0, TOV0 := False\<rparr>)"

text \<open>
  \<^verbatim>\<open>ISR(TIMER1_COMPA_vect)\<close>, the same text in all three revisions; \<open>frame\<close> is the
  revision's \<^verbatim>\<open>singleFrame\<close>. \<^verbatim>\<open>divider %= postscaler\<close> is C's remainder
  (truncating); the firmware never runs it with \<open>postscaler = 0\<close>.
\<close>

definition TIMER1_COMPA_vect ::
  "('a machine_scheme \<Rightarrow> 'a machine_scheme) \<Rightarrow> 'a machine_scheme \<Rightarrow> 'a machine_scheme"
where
  "TIMER1_COMPA_vect frame s =
    (let s1 = (if newIntervalStep s \<noteq> oldIntervalStep s
               then (let s' = s\<lparr>OCR1C := newIntervalStep s\<rparr> in s'\<lparr>OCR1A := OCR1C s'\<rparr>)
               else s);
         s2 = (if divider s1 = 0 then frame s1 else s1);
         s3 = s2\<lparr>divider := divider s2 + 1\<rparr>
     in s3\<lparr>divider := int16_rem (divider s3) (postscaler s3)\<rparr>)"


subsection \<open>The interval commands\<close>

text \<open>
  The bodies of the Slower, Faster, HalfSpeed, DoubleSpeed and interval-toggle branches
  of \<^verbatim>\<open>ReceivedCode\<close>; their text is the same in the three revisions.
  \<^verbatim>\<open>oldIntervalStep + 10\<close> is computed in \<^verbatim>\<open>int\<close> (no overflow: at most 265),
  \<^verbatim>\<open>postscaler * 2\<close> is a 16-bit \<^verbatim>\<open>int\<close> product, and the literal 32768 is a
  \<^verbatim>\<open>long\<close>, so the comparison with it is exact.
\<close>

definition slower :: "'a machine_scheme \<Rightarrow> 'a machine_scheme" where
  "slower s =
    (let s1 = s\<lparr>oldIntervalStep := newIntervalStep s\<rparr>
     in s1\<lparr>newIntervalStep := word_of_int (constrain (uint (oldIntervalStep s1) + 10) 1 255)\<rparr>)"

definition faster :: "'a machine_scheme \<Rightarrow> 'a machine_scheme" where
  "faster s =
    (let s1 = s\<lparr>oldIntervalStep := newIntervalStep s\<rparr>
     in if sint (postscaler s1) \<le> 4
        then s1\<lparr>newIntervalStep := word_of_int (constrain (uint (oldIntervalStep s1) - 10) 11 255)\<rparr>
        else s1\<lparr>newIntervalStep := word_of_int (constrain (uint (oldIntervalStep s1) - 10) 1 255)\<rparr>)"

definition halfSpeed :: "'a machine_scheme \<Rightarrow> 'a machine_scheme" where
  "halfSpeed s = s\<lparr>postscaler := word_of_int (constrain (sint (postscaler s * 2)) 1 32768)\<rparr>"

definition doubleSpeed :: "'a machine_scheme \<Rightarrow> 'a machine_scheme" where
  "doubleSpeed s =
    (let s1 = s\<lparr>postscaler :=
                  word_of_int (constrain (sint (int16_div (postscaler s) 2)) 1 32768)\<rparr>
     in if uint (newIntervalStep s1) < 11 \<and> sint (postscaler s1) \<le> 4
        then s1\<lparr>newIntervalStep := 11\<rparr> else s1)"

definition toggleInterval :: "'a machine_scheme \<Rightarrow> 'a machine_scheme" where
  "toggleInterval s = (if OCIE1A s then s\<lparr>OCIE1A := False\<rparr> else s\<lparr>OCIE1A := True\<rparr>)"

text \<open>The address and the two readings of the command of a frame.\<close>

definition address :: "uint32 \<Rightarrow> uint32" where
  "address d = d AND 0xFFFF"

definition key8 :: "uint32 \<Rightarrow> int16" where
  "key8 d = ucast (drop_bit 16 d AND 0xFF)"

definition key7 :: "uint32 \<Rightarrow> int16" where
  "key7 d = ucast (drop_bit 17 d AND 0x7F)"

subsection \<open>Revision A: the dispatcher without learning\<close>

definition RC_CODE :: uint32 where "RC_CODE = 0x87EE"
definition UP_KEY :: int16 where "UP_KEY = 0x05"
definition DOWN_KEY :: int16 where "DOWN_KEY = 0x06"
definition LEFT_KEY :: int16 where "LEFT_KEY = 0x04"
definition RIGHT_KEY :: int16 where "RIGHT_KEY = 0x03"
definition MENU_KEY :: int16 where "MENU_KEY = 0x01"
definition ALU_CENTER_KEY :: int16 where "ALU_CENTER_KEY = 0x2E"
definition ALU_PLAY_KEY :: int16 where "ALU_PLAY_KEY = 0x2F"
definition WHITE_PLAY_KEY :: int16 where "WHITE_PLAY_KEY = 0x02"

definition ReceivedCode_A :: "bool \<Rightarrow> 'a machine_scheme \<Rightarrow> 'a machine_scheme" where
  "ReceivedCode_A Repeat s =
    (let s1 =
      (if address (receivedData s) \<noteq> RC_CODE then
         (let s' = (if \<not> Repeat then blinkLED s else s);
              key = key8 (receivedData s')
          in if key \<noteq> 0xFF \<and> \<not> Repeat \<and> \<not> digitalRead lightmeterPin s'
               then startRunWithMetering s'
             else if key \<noteq> 0xFF \<and> \<not> Repeat \<and> digitalRead lightmeterPin s'
               then stopRun s'
             else s')
       else
         (let key = key7 (receivedData s);
              s' = (if (key = ALU_CENTER_KEY \<and> \<not> Repeat) \<or> (key = ALU_PLAY_KEY \<and> \<not> Repeat)
                    then s\<lparr>aluRemote := True\<rparr> else s)
          in if key = ALU_PLAY_KEY \<and> \<not> Repeat \<and> \<not> digitalRead lightmeterPin s'
               then startRunWithMetering s'
             else if key = ALU_PLAY_KEY \<and> \<not> Repeat \<and> digitalRead lightmeterPin s'
               then stopRun s'
             else if key = ALU_CENTER_KEY \<and> \<not> Repeat
               then singleFrame 20 50
                      (if lmMode s' = LM_MODE_1ST_SINGLESHOT then meterOnce s' else s')
             else if key = MENU_KEY \<and> \<not> Repeat then toggleInterval s'
             else if key = DOWN_KEY \<and> \<not> Repeat then slower s'
             else if key = UP_KEY \<and> \<not> Repeat then faster s'
             else if key = RIGHT_KEY \<and> \<not> Repeat then halfSpeed s'
             else if key = LEFT_KEY \<and> \<not> Repeat then doubleSpeed s'
             else if key = WHITE_PLAY_KEY \<and> \<not> Repeat \<and> \<not> aluRemote s'
                     \<and> \<not> digitalRead lightmeterPin s'
               then startRunWithMetering s'
             else if key = WHITE_PLAY_KEY \<and> \<not> Repeat \<and> \<not> aluRemote s'
                     \<and> digitalRead lightmeterPin s'
               then stopRun s'
             else s'\<lparr>blinkFlag := False\<rparr>));
         s2 = (if blinkFlag s1 then blinkLED s1 else s1)
     in s2\<lparr>blinkFlag := True\<rparr>)"

text \<open>The globals' initialisers followed by \<^verbatim>\<open>setup()\<close> of revision A.\<close>

definition setup_A :: machine where
  "setup_A =
    \<lparr>pins = (\<lambda>_. False), trace = [], TCNT0 = 0, TOV0 = False, OCIE1A = False,
     OCR1C = 31, OCR1A = 31, irBits = 32, receivedData = 0,
     oldIntervalStep = 31, newIntervalStep = 31, postscaler = 2, divider = 0,
     lmMode = LM_MODE_1ST_SINGLESHOT, blinkFlag = True, aluRemote = False\<rparr>"


subsection \<open>Revisions B and C: the state of the learning sketches\<close>

text \<open>
  \<open>EEPROM\<close> is the one \<^verbatim>\<open>struct RC\<close> at offset 0 of the persistent store. The
  learned codes are \<^verbatim>\<open>unsigned int\<close>s whose value \<^verbatim>\<open>0xFFFF\<close> means "not learned yet".
\<close>

record learner = machine +
  startMillis :: uint32
  justBooted :: bool
  learnMode :: bool
  EEPROM :: RC

record machineB = learner +
  learnedIrRcCode :: uint16
  learnedIrPlayKey :: uint16
  learnedIrOneFrameKey :: uint16
  learnedIrIntervalKey :: uint16
  learnedIrFasterKey :: uint16
  learnedIrSlowerKey :: uint16
  learnedIrDoubleSpeedKey :: uint16
  learnedIrHalfSpeedKey :: uint16

record machineC = learner +
  irRcCode :: uint16
  irPlayKey :: uint16
  irCenterKey :: uint16
  irMenuKey :: uint16
  irUpKey :: uint16
  irDownKey :: uint16
  irLeftKey :: uint16
  irRightKey :: uint16
  irWhitePlayKey :: uint16

definition EEPROM_put :: "RC \<Rightarrow> 'a learner_scheme \<Rightarrow> 'a learner_scheme" where
  "EEPROM_put IR s = s\<lparr>EEPROM := IR, trace := trace s @ [EepromPut IR]\<rparr>"

subsection \<open>Revision B: the dispatcher\<close>

definition appleIrRcCode :: uint32 where "appleIrRcCode = 0x87EE"
definition appleIrPlayKey :: int16 where "appleIrPlayKey = 0x2F"
definition appleIrOneFrameKey :: int16 where "appleIrOneFrameKey = 0x2E"
definition appleIrIntervalKey :: int16 where "appleIrIntervalKey = 0x01"
definition appleIrFasterKey :: int16 where "appleIrFasterKey = 0x05"
definition appleIrSlowerKey :: int16 where "appleIrSlowerKey = 0x06"
definition appleIrDoubleSpeedKey :: int16 where "appleIrDoubleSpeedKey = 0x04"
definition appleIrHalfSpeedKey :: int16 where "appleIrHalfSpeedKey = 0x03"
definition appleIrWhitePlayKey :: int16 where "appleIrWhitePlayKey = 0x02"

text \<open>The guard "skip everything if we receive obvious garbage" of revision B.\<close>

definition garbage_guard_B :: "uint32 \<Rightarrow> bool" where
  "garbage_guard_B d = (drop_bit 16 d AND 0xFF \<noteq> 0xFF \<and> drop_bit 16 d AND 0xFF \<noteq> 0x00)"

text \<open>The branch \<^verbatim>\<open>justBooted && !learnMode\<close>: a learn session starts.\<close>

definition startLearning_B :: "machineB \<Rightarrow> machineB" where
  "startLearning_B s =
    (let s1 = s\<lparr>learnedIrRcCode := ucast (receivedData s AND 0xFFFF)\<rparr>;
         s2 = s1\<lparr>learnedIrPlayKey := 0xFFFF, learnedIrOneFrameKey := 0xFFFF,
                 learnedIrIntervalKey := 0xFFFF, learnedIrFasterKey := 0xFFFF,
                 learnedIrSlowerKey := 0xFFFF, learnedIrDoubleSpeedKey := 0xFFFF,
                 learnedIrHalfSpeedKey := 0xFFFF\<rparr>;
         s3 = blinkLEDtwice s2
     in s3\<lparr>learnMode := True\<rparr>)"

text \<open>The branch \<^verbatim>\<open>learnMode\<close>: one key of the session.\<close>

definition learnKey_B :: "bool \<Rightarrow> machineB \<Rightarrow> machineB" where
  "learnKey_B Repeat s =
    (if receivedData s AND 0xFFFF = ucast (learnedIrRcCode s) \<and> \<not> Repeat then
       (let s1 = blinkLEDtwice s;
            key = key8 (receivedData s1)
        in if learnedIrPlayKey s1 = 0xFFFF then s1\<lparr>learnedIrPlayKey := key\<rparr>
           else if learnedIrOneFrameKey s1 = 0xFFFF then s1\<lparr>learnedIrOneFrameKey := key\<rparr>
           else if learnedIrIntervalKey s1 = 0xFFFF then s1\<lparr>learnedIrIntervalKey := key\<rparr>
           else if learnedIrFasterKey s1 = 0xFFFF then s1\<lparr>learnedIrFasterKey := key\<rparr>
           else if learnedIrSlowerKey s1 = 0xFFFF then s1\<lparr>learnedIrSlowerKey := key\<rparr>
           else if learnedIrDoubleSpeedKey s1 = 0xFFFF
             then s1\<lparr>learnedIrDoubleSpeedKey := key\<rparr>
           else if learnedIrHalfSpeedKey s1 = 0xFFFF then
             (let s2 = s1\<lparr>learnedIrHalfSpeedKey := key\<rparr>;
                  IR = \<lparr>RcCode = learnedIrRcCode s2,
                        PlayKey = ucast (learnedIrPlayKey s2),
                        OneFrameKey = ucast (learnedIrOneFrameKey s2),
                        IntervalKey = ucast (learnedIrIntervalKey s2),
                        FasterKey = ucast (learnedIrFasterKey s2),
                        SlowerKey = ucast (learnedIrSlowerKey s2),
                        DoubleSpeedKey = ucast (learnedIrDoubleSpeedKey s2),
                        HalfSpeedKey = ucast (learnedIrHalfSpeedKey s2)\<rparr>;
                  s3 = EEPROM_put IR s2;
                  s4 = seq [blinkLEDtwice, blinkLEDtwice, blinkLEDtwice, blinkLEDtwice,
                            blinkLEDtwice] s3
              in s4\<lparr>learnMode := False\<rparr>)
           else s1)
     else s)"

text \<open>The branch \<^verbatim>\<open>!justBooted && !learnMode\<close>: normal operation.\<close>

definition normal_B :: "bool \<Rightarrow> machineB \<Rightarrow> machineB" where
  "normal_B Repeat s =
    (let s1 =
      (if receivedData s AND 0xFFFF \<noteq> ucast (learnedIrRcCode s)
          \<and> receivedData s AND 0xFFFF \<noteq> appleIrRcCode then
         (let key = key8 (receivedData s)
          in if key \<noteq> 0xFF \<and> \<not> Repeat \<and> \<not> digitalRead lightmeterPin s
               then startRunWithMetering (blinkLED s)
             else if key \<noteq> 0xFF \<and> \<not> Repeat \<and> digitalRead lightmeterPin s
               then stopRun (blinkLED s)
             else s)
       else
         (let key = (if receivedData s AND 0xFFFF = appleIrRcCode
                     then key7 (receivedData s) else key8 (receivedData s));
              s' = (if (key = appleIrOneFrameKey \<and> \<not> Repeat
                          \<and> receivedData s AND 0xFFFF = appleIrRcCode)
                       \<or> (key = appleIrPlayKey \<and> \<not> Repeat
                          \<and> receivedData s AND 0xFFFF = appleIrRcCode)
                    then s\<lparr>aluRemote := True\<rparr> else s)
          in if (key = appleIrPlayKey \<or> key = learnedIrPlayKey s') \<and> \<not> Repeat
                  \<and> \<not> digitalRead lightmeterPin s'
               then startRunWithMetering s'
             else if (key = appleIrPlayKey \<or> key = learnedIrPlayKey s') \<and> \<not> Repeat
                  \<and> digitalRead lightmeterPin s'
               then stopRun s'
             else if (key = appleIrOneFrameKey \<or> key = learnedIrOneFrameKey s') \<and> \<not> Repeat
               then singleFrame 10 20
                      (if lmMode s' = LM_MODE_1ST_SINGLESHOT then meterOnce s' else s')
             else if (key = appleIrIntervalKey \<or> key = learnedIrIntervalKey s') \<and> \<not> Repeat
               then toggleInterval s'
             else if (key = appleIrSlowerKey \<or> key = learnedIrSlowerKey s') \<and> \<not> Repeat
               then slower s'
             else if (key = appleIrFasterKey \<or> key = learnedIrFasterKey s') \<and> \<not> Repeat
               then faster s'
             else if (key = appleIrHalfSpeedKey \<or> key = learnedIrHalfSpeedKey s') \<and> \<not> Repeat
               then halfSpeed s'
             else if (key = appleIrDoubleSpeedKey \<or> key = learnedIrDoubleSpeedKey s')
                  \<and> \<not> Repeat
               then doubleSpeed s'
             else if key = appleIrWhitePlayKey \<and> \<not> Repeat \<and> \<not> aluRemote s'
                     \<and> \<not> digitalRead lightmeterPin s'
               then startRunWithMetering s'
             else if key = appleIrWhitePlayKey \<and> \<not> Repeat \<and> \<not> aluRemote s'
                     \<and> digitalRead lightmeterPin s'
               then stopRun s'
             else s'\<lparr>blinkFlag := False\<rparr>));
         s2 = (if blinkFlag s1 then blinkLED s1 else s1)
     in s2\<lparr>blinkFlag := True\<rparr>)"

definition ReceivedCode_B :: "bool \<Rightarrow> machineB \<Rightarrow> machineB" where
  "ReceivedCode_B Repeat s =
    (if garbage_guard_B (receivedData s) then
       (if justBooted s \<and> \<not> learnMode s then startLearning_B s
        else if learnMode s then learnKey_B Repeat s
        else if \<not> justBooted s \<and> \<not> learnMode s then normal_B Repeat s
        else s)
     else s)"

text \<open>
  The globals' initialisers followed by \<^verbatim>\<open>setup()\<close> of revision B, which loads the
  learned codes from the record \<open>rom\<close> found in the EEPROM and notes the time \<open>now\<close>.
\<close>

definition setup_B :: "RC \<Rightarrow> uint32 \<Rightarrow> machineB" where
  "setup_B rom now =
    \<lparr>pins = (\<lambda>p. p = ledPin), trace = [DigitalWrite ledPin True],
     TCNT0 = 0, TOV0 = False, OCIE1A = False,
     OCR1C = 31, OCR1A = 31, irBits = 32, receivedData = 0,
     oldIntervalStep = 31, newIntervalStep = 31, postscaler = 2, divider = 0,
     lmMode = LM_MODE_1ST_SINGLESHOT, blinkFlag = True, aluRemote = False,
     startMillis = now, justBooted = True, learnMode = False, EEPROM = rom,
     learnedIrRcCode = RcCode rom,
     learnedIrPlayKey = ucast (PlayKey rom),
     learnedIrOneFrameKey = ucast (OneFrameKey rom),
     learnedIrIntervalKey = ucast (IntervalKey rom),
     learnedIrFasterKey = ucast (FasterKey rom),
     learnedIrSlowerKey = ucast (SlowerKey rom),
     learnedIrDoubleSpeedKey = ucast (DoubleSpeedKey rom),
     learnedIrHalfSpeedKey = ucast (HalfSpeedKey rom)\<rparr>"

text \<open>\<^verbatim>\<open>loop()\<close> of revision B, run when \<^verbatim>\<open>millis()\<close> reads \<open>now\<close>.\<close>

definition loop_B :: "uint32 \<Rightarrow> machineB \<Rightarrow> machineB" where
  "loop_B now s =
    (if justBooted s then
       (if startMillis s + 250 < now then
          (let s1 = s\<lparr>justBooted := False\<rparr>
           in if \<not> learnMode s1 then digitalWrite ledPin False s1 else s1)
        else s)
     else s)"

text \<open>The seven learned codes in the order the session fills them.\<close>

definition slots_B :: "machineB \<Rightarrow> uint16 list" where
  "slots_B s =
    [learnedIrPlayKey s, learnedIrOneFrameKey s, learnedIrIntervalKey s, learnedIrFasterKey s,
     learnedIrSlowerKey s, learnedIrDoubleSpeedKey s, learnedIrHalfSpeedKey s]"

text \<open>The profile a completed session stores.\<close>

definition profile_B :: "machineB \<Rightarrow> RC" where
  "profile_B s =
    \<lparr>RcCode = learnedIrRcCode s,
     PlayKey = ucast (learnedIrPlayKey s),
     OneFrameKey = ucast (learnedIrOneFrameKey s),
     IntervalKey = ucast (learnedIrIntervalKey s),
     FasterKey = ucast (learnedIrFasterKey s),
     SlowerKey = ucast (learnedIrSlowerKey s),
     DoubleSpeedKey = ucast (learnedIrDoubleSpeedKey s),
     HalfSpeedKey = ucast (learnedIrHalfSpeedKey s)\<rparr>"


subsection \<open>Revision C: the dispatcher\<close>

text \<open>The guard "skip everything if we receive obvious garbage" of revision C.\<close>

definition garbage_guard_C :: "uint32 \<Rightarrow> bool" where
  "garbage_guard_C d = (drop_bit 16 d AND 0xFF \<noteq> 0xFF \<or> drop_bit 16 d AND 0xFF \<noteq> 0x00)"

definition startLearning_C :: "machineC \<Rightarrow> machineC" where
  "startLearning_C s =
    (let s1 = s\<lparr>irRcCode := ucast (receivedData s AND 0xFFFF)\<rparr>;
         s2 = s1\<lparr>irPlayKey := 0xFFFF, irCenterKey := 0xFFFF, irMenuKey := 0xFFFF,
                 irUpKey := 0xFFFF, irDownKey := 0xFFFF, irLeftKey := 0xFFFF,
                 irRightKey := 0xFFFF\<rparr>;
         s3 = blinkLEDtwice s2
     in s3\<lparr>learnMode := True\<rparr>)"

definition learnKey_C :: "machineC \<Rightarrow> machineC" where
  "learnKey_C s =
    (if receivedData s AND 0xFFFF = ucast (irRcCode s) then
       (let s1 = blinkLEDtwice s;
            key = key8 (receivedData s1)
        in if irPlayKey s1 = 0xFFFF then s1\<lparr>irPlayKey := key\<rparr>
           else if irCenterKey s1 = 0xFFFF then s1\<lparr>irCenterKey := key\<rparr>
           else if irMenuKey s1 = 0xFFFF then s1\<lparr>irMenuKey := key\<rparr>
           else if irUpKey s1 = 0xFFFF then s1\<lparr>irUpKey := key\<rparr>
           else if irDownKey s1 = 0xFFFF then s1\<lparr>irDownKey := key\<rparr>
           else if irLeftKey s1 = 0xFFFF then s1\<lparr>irLeftKey := key\<rparr>
           else if irRightKey s1 = 0xFFFF then
             (let s2 = s1\<lparr>irRightKey := key\<rparr>;
                  IR = \<lparr>RcCode = irRcCode s2,
                        PlayKey = ucast (irPlayKey s2),
                        OneFrameKey = ucast (irCenterKey s2),
                        IntervalKey = ucast (irMenuKey s2),
                        FasterKey = ucast (irUpKey s2),
                        SlowerKey = ucast (irDownKey s2),
                        DoubleSpeedKey = ucast (irLeftKey s2),
                        HalfSpeedKey = ucast (irRightKey s2)\<rparr>;
                  s3 = EEPROM_put IR s2;
                  s4 = seq [blinkLEDtwice, blinkLEDtwice, blinkLEDtwice, blinkLEDtwice] s3
              in s4\<lparr>learnMode := False\<rparr>)
           else s1)
     else s)"

definition normal_C :: "bool \<Rightarrow> machineC \<Rightarrow> machineC" where
  "normal_C Repeat s =
    (let s1 =
      (if receivedData s AND 0xFFFF \<noteq> ucast (irRcCode s) then
         (let s' = (if \<not> Repeat then blinkLED s else s);
              key = key8 (receivedData s')
          in if key \<noteq> 0xFF \<and> \<not> Repeat \<and> \<not> digitalRead lightmeterPin s'
               then startRunWithMetering s'
             else if key \<noteq> 0xFF \<and> \<not> Repeat \<and> digitalRead lightmeterPin s'
               then stopRun s'
             else s')
       else
         (let key = (if receivedData s AND 0xFFFF = 0x87EE
                     then key7 (receivedData s) else key8 (receivedData s));
              s' = (if (key = irCenterKey s \<and> \<not> Repeat \<and> irRcCode s = 0x87EE)
                       \<or> (key = irPlayKey s \<and> \<not> Repeat \<and> irRcCode s = 0x87EE)
                    then s\<lparr>aluRemote := True\<rparr> else s)
          in if key = irPlayKey s' \<and> \<not> Repeat \<and> \<not> digitalRead lightmeterPin s'
               then startRunWithMetering s'
             else if key = irPlayKey s' \<and> \<not> Repeat \<and> digitalRead lightmeterPin s'
               then stopRun s'
             else if key = irCenterKey s' \<and> \<not> Repeat
               then singleFrame 20 50
                      (if lmMode s' = LM_MODE_1ST_SINGLESHOT then meterOnce s' else s')
             else if key = irMenuKey s' \<and> \<not> Repeat then toggleInterval s'
             else if key = irDownKey s' \<and> \<not> Repeat then slower s'
             else if key = irUpKey s' \<and> \<not> Repeat then faster s'
             else if key = irRightKey s' \<and> \<not> Repeat then halfSpeed s'
             else if key = irLeftKey s' \<and> \<not> Repeat then doubleSpeed s'
             else if key = irWhitePlayKey s' \<and> \<not> Repeat \<and> \<not> aluRemote s'
                     \<and> \<not> digitalRead lightmeterPin s'
               then startRunWithMetering s'
             else if key = irWhitePlayKey s' \<and> \<not> Repeat \<and> \<not> aluRemote s'
                     \<and> digitalRead lightmeterPin s'
               then stopRun s'
             else s'\<lparr>blinkFlag := False\<rparr>));
         s2 = (if blinkFlag s1 then blinkLED s1 else s1)
     in s2\<lparr>blinkFlag := True\<rparr>)"

definition ReceivedCode_C :: "bool \<Rightarrow> machineC \<Rightarrow> machineC" where
  "ReceivedCode_C Repeat s =
    (if garbage_guard_C (receivedData s) then
       (if justBooted s \<and> \<not> learnMode s then startLearning_C s
        else if learnMode s then learnKey_C s
        else if \<not> justBooted s \<and> \<not> learnMode s then normal_C Repeat s
        else s)
     else s)"

definition setup_C :: "RC \<Rightarrow> uint32 \<Rightarrow> machineC" where
  "setup_C rom now =
    \<lparr>pins = (\<lambda>_. False), trace = [],
     TCNT0 = 0, TOV0 = False, OCIE1A = False,
     OCR1C = 31, OCR1A = 31, irBits = 32, receivedData = 0,
     oldIntervalStep = 31, newIntervalStep = 31, postscaler = 2, divider = 0,
     lmMode = LM_MODE_1ST_SINGLESHOT, blinkFlag = True, aluRemote = False,
     startMillis = now, justBooted = True, learnMode = False, EEPROM = rom,
     irRcCode = RcCode rom,
     irPlayKey = ucast (PlayKey rom),
     irCenterKey = ucast (OneFrameKey rom),
     irMenuKey = ucast (IntervalKey rom),
     irUpKey = ucast (FasterKey rom),
     irDownKey = ucast (SlowerKey rom),
     irLeftKey = ucast (DoubleSpeedKey rom),
     irRightKey = ucast (HalfSpeedKey rom),
     irWhitePlayKey = 0x02\<rparr>"

definition loop_C :: "uint32 \<Rightarrow> machineC \<Rightarrow> machineC" where
  "loop_C now s =
    (if justBooted s then
       (if startMillis s + 100 < now then
          (let s1 = s\<lparr>justBooted := False\<rparr>
           in if \<not> learnMode s1 then blinkLEDtwice s1 else s1)
        else s)
     else s)"

definition slots_C :: "machineC \<Rightarrow> uint16 list" where
  "slots_C s =
    [irPlayKey s, irCenterKey s, irMenuKey s, irUpKey s, irDownKey s, irLeftKey s,
     irRightKey s]"

definition profile_C :: "machineC \<Rightarrow> RC" where
  "profile_C s =
    \<lparr>RcCode = irRcCode s,
     PlayKey = ucast (irPlayKey s),
     OneFrameKey = ucast (irCenterKey s),
     IntervalKey = ucast (irMenuKey s),
     FasterKey = ucast (irUpKey s),
     SlowerKey = ucast (irDownKey s),
     DoubleSpeedKey = ucast (irLeftKey s),
     HalfSpeedKey = ucast (irRightKey s)\<rparr>"

subsection \<open>Observations on traces and runs\<close>

text \<open>
  The hold relay line is written by \<^verbatim>\<open>startRunWithMetering\<close> and by \<^verbatim>\<open>stopRun\<close>
  and by no other routine, so a stretch of the trace shows a start or a stop of a run
  exactly when it writes that line.
\<close>

fun writesHold :: "action \<Rightarrow> bool" where
  "writesHold (DigitalWrite pin v) = (pin = holdPin)"
| "writesHold (Delay_ms n) = False"
| "writesHold (EepromPut IR) = False"

definition startsOrStopsRun :: "action list \<Rightarrow> bool" where
  "startsOrStopsRun as = list_ex writesHold as"

fun isEepromPut :: "action \<Rightarrow> bool" where
  "isEepromPut (EepromPut IR) = True"
| "isEepromPut (DigitalWrite pin v) = False"
| "isEepromPut (Delay_ms n) = False"

text \<open>What a handler or the dispatcher appended to the trace.\<close>

definition emitted :: "'a machine_scheme \<Rightarrow> 'a machine_scheme \<Rightarrow> action list" where
  "emitted s s' = drop (length (trace s)) (trace s')"

text \<open>
  A complete frame \<open>d\<close> handed to a dispatcher, as the edge handler does after the last
  bit (\<open>Repeat = False\<close>) or after a repeat gap (\<open>Repeat = True\<close>, with the frame
  still in the buffer).
\<close>

definition dispatch ::
  "(bool \<Rightarrow> 'a machine_scheme \<Rightarrow> 'a machine_scheme) \<Rightarrow> bool \<times> uint32
     \<Rightarrow> 'a machine_scheme \<Rightarrow> 'a machine_scheme" where
  "dispatch ReceivedCode f s = ReceivedCode (fst f) (s\<lparr>receivedData := snd f\<rparr>)"

definition dispatchAll ::
  "(bool \<Rightarrow> 'a machine_scheme \<Rightarrow> 'a machine_scheme) \<Rightarrow> (bool \<times> uint32) list
     \<Rightarrow> 'a machine_scheme \<Rightarrow> 'a machine_scheme" where
  "dispatchAll ReceivedCode fs s = fold (dispatch ReceivedCode) fs s"

text \<open>A falling edge that arrives with counter 0 at \<open>t\<close> and overflow flag \<open>ov\<close>.\<close>

definition edge ::
  "(bool \<Rightarrow> 'a machine_scheme \<Rightarrow> 'a machine_scheme) \<Rightarrow> byte \<times> bool
     \<Rightarrow> 'a machine_scheme \<Rightarrow> 'a machine_scheme" where
  "edge ReceivedCode e s = INT0_vect ReceivedCode (s\<lparr>TCNT0 := fst e, TOV0 := snd e\<rparr>)"

definition edges ::
  "(bool \<Rightarrow> 'a machine_scheme \<Rightarrow> 'a machine_scheme) \<Rightarrow> (byte \<times> bool) list
     \<Rightarrow> 'a machine_scheme \<Rightarrow> 'a machine_scheme" where
  "edges ReceivedCode es s = fold (edge ReceivedCode) es s"

text \<open>
  The position of the first slot that still holds the "not learned yet" value
  \<^verbatim>\<open>0xFFFF\<close> (the length of the list if there is none).
\<close>

fun firstUnfilled :: "uint16 list \<Rightarrow> nat" where
  "firstUnfilled [] = 0"
| "firstUnfilled (x # xs) = (if x = 0xFFFF then 0 else Suc (firstUnfilled xs))"

text \<open>Whether the frame in the buffer is one a running learn session takes a key from.\<close>

definition learnable_B :: "bool \<Rightarrow> machineB \<Rightarrow> bool" where
  "learnable_B Repeat s =
    (garbage_guard_B (receivedData s)
     \<and> receivedData s AND 0xFFFF = ucast (learnedIrRcCode s) \<and> \<not> Repeat)"

definition learnable_C :: "machineC \<Rightarrow> bool" where
  "learnable_C s = (receivedData s AND 0xFFFF = ucast (irRcCode s))"

text \<open>
  The decoder's buffer invariant: while bits are being received, the bits of the buffer
  from \<open>irBits\<close> up are still clear.
\<close>

definition bufferClear :: "'a machine_scheme \<Rightarrow> bool" where
  "bufferClear s =
    (if irBits s = 32 then True
     else unat (irBits s) < 32 \<and> drop_bit (unat (irBits s)) (receivedData s) = 0)"

text \<open>The staged-step predicate of the scheduler: a short postscaler has a floored step.\<close>

definition stepFloor :: "'a machine_scheme \<Rightarrow> bool" where
  "stepFloor s = (if sint (postscaler s) \<le> 4 then 11 \<le> uint (newIntervalStep s) else True)"


subsection \<open>Example states\<close>

text \<open>
  Revision B right after power-on with an erased EEPROM and a first frame from the remote
  with address \<^verbatim>\<open>0x1234\<close>, inside the boot window: a learn session has started.
\<close>

definition learning_B :: machineB where
  "learning_B = dispatch ReceivedCode_B (False, 0x00101234) (setup_B erased_rom 0)"

text \<open>The same session after six keys \<^verbatim>\<open>0x11\<close> .. \<^verbatim>\<open>0x16\<close> of that remote.\<close>

definition sixKeys_B :: machineB where
  "sixKeys_B =
    dispatchAll ReceivedCode_B
      [(False, 0x00111234), (False, 0x00121234), (False, 0x00131234), (False, 0x00141234),
       (False, 0x00151234), (False, 0x00161234)] learning_B"

text \<open>
  A stored profile of a remote with address \<^verbatim>\<open>0x1234\<close> whose Play key sends the
  command byte \<^verbatim>\<open>0x02\<close>, and revision B in normal operation with it: powered on at
  time 0, the boot window over at time 251 without a frame.
\<close>

definition taught_rom :: RC where
  "taught_rom =
    \<lparr>RcCode = 0x1234, PlayKey = 0x02, OneFrameKey = 0x11, IntervalKey = 0x12,
     FasterKey = 0x13, SlowerKey = 0x14, DoubleSpeedKey = 0x15, HalfSpeedKey = 0x16\<rparr>"

definition taught_B :: machineB where
  "taught_B = loop_B 251 (setup_B taught_rom 0)"

text \<open>That state after a non-repeat Play frame of the aluminium Apple remote.\<close>

definition latched_B :: machineB where
  "latched_B = dispatch ReceivedCode_B (False, 0x005E87EE) taught_B"

text \<open>
  Revision A after thirteen HalfSpeed frames (Apple Right key), and after three Faster
  frames (Apple Up key) more.
\<close>

definition slowest_A :: machine where
  "slowest_A = dispatchAll ReceivedCode_A (replicate 13 (False, 0x000687EE)) setup_A"

definition slowest_short_A :: machine where
  "slowest_short_A = dispatchAll ReceivedCode_A (replicate 3 (False, 0x000A87EE)) slowest_A"

text \<open>
  Revision A with the interval timer switched on (Menu), the postscaler raised to 8
  (Right twice), the step lowered to 1 by three Faster frames (Up), each followed by a
  timer interrupt, then one DoubleSpeed frame (Left) and a timer interrupt.
\<close>

definition stale_A :: machine where
  "stale_A =
    seq [dispatch ReceivedCode_A (False, 0x000287EE),
         dispatch ReceivedCode_A (False, 0x000687EE),
         dispatch ReceivedCode_A (False, 0x000687EE),
         dispatch ReceivedCode_A (False, 0x000A87EE), TIMER1_COMPA_vect (singleFrame 20 50),
         dispatch ReceivedCode_A (False, 0x000A87EE), TIMER1_COMPA_vect (singleFrame 20 50),
         dispatch ReceivedCode_A (False, 0x000A87EE), TIMER1_COMPA_vect (singleFrame 20 50),
         dispatch ReceivedCode_A (False, 0x000887EE), TIMER1_COMPA_vect (singleFrame 20 50)]
      setup_A"

section \<open>Auxiliary facts\<close>

subsection \<open>The relay plays as one update of the state\<close>

lemma seq_Nil [simp]: "seq [] s = s" by (simp add: seq_def)
lemma seq_Cons [simp]: "seq (f # fs) s = seq fs (f s)" by (simp add: seq_def)

lemmas pin_defs = lightmeterPin_def startPin_def loadPin_def holdPin_def ledPin_def

lemma blinkLED_eq:
  "blinkLED s = s\<lparr>pins := (pins s)(ledPin := False),
     trace := trace s @ [DigitalWrite ledPin True, Delay_ms 20, DigitalWrite ledPin False]\<rparr>"
  by (simp add: blinkLED_def digitalWrite_def delay_ms_def)

lemma blinkLEDtwice_eq:
  "blinkLEDtwice s = s\<lparr>pins := (pins s)(ledPin := False),
     trace := trace s @ [DigitalWrite ledPin True, Delay_ms 50, DigitalWrite ledPin False,
       Delay_ms 150, DigitalWrite ledPin True, Delay_ms 50, DigitalWrite ledPin False]\<rparr>"
  by (simp add: blinkLEDtwice_def digitalWrite_def delay_ms_def)

lemma startRunWithMetering_eq:
  "startRunWithMetering s = s\<lparr>pins := (pins s)(lightmeterPin := True, holdPin := True,
        loadPin := False, startPin := True),
     trace := trace s @ [DigitalWrite lightmeterPin True, DigitalWrite holdPin True,
       DigitalWrite loadPin True, Delay_ms 250, DigitalWrite loadPin False, Delay_ms 70,
       DigitalWrite startPin True]\<rparr>"
  by (simp add: startRunWithMetering_def digitalWrite_def delay_ms_def pin_defs)

lemma stopRun_eq:
  "stopRun s = s\<lparr>pins := (pins s)(startPin := False, holdPin := False,
        lightmeterPin := False, ledPin := False),
     trace := trace s @ [DigitalWrite startPin False, Delay_ms 70, DigitalWrite holdPin False,
       DigitalWrite lightmeterPin False, DigitalWrite ledPin True, Delay_ms 250,
       DigitalWrite ledPin False],
     lmMode := LM_MODE_1ST_SINGLESHOT\<rparr>"
  by (simp add: stopRun_def digitalWrite_def delay_ms_def pin_defs)

lemma meterOnce_eq:
  "meterOnce s = s\<lparr>pins := (pins s)(ledPin := False, lightmeterPin := False),
     trace := trace s @ [DigitalWrite lightmeterPin True, DigitalWrite ledPin True,
       Delay_ms 350, DigitalWrite ledPin False, DigitalWrite lightmeterPin False],
     lmMode := LM_MODE_SUB_SINGLESHOT\<rparr>"
  by (simp add: meterOnce_def digitalWrite_def delay_ms_def pin_defs)

lemma singleFrame_eq:
  "singleFrame t2 t3 s = s\<lparr>pins := (pins s)(startPin := False, loadPin := False),
     trace := trace s @ [DigitalWrite loadPin True, Delay_ms 10, DigitalWrite loadPin False,
       DigitalWrite startPin True, Delay_ms t2, DigitalWrite startPin False,
       DigitalWrite loadPin True, Delay_ms t3, DigitalWrite loadPin False]\<rparr>"
  by (simp add: singleFrame_def digitalWrite_def delay_ms_def pin_defs)

lemmas play_eqs =
  blinkLED_eq blinkLEDtwice_eq startRunWithMetering_eq stopRun_eq meterOnce_eq singleFrame_eq

lemmas cmd_defs = slower_def faster_def halfSpeed_def doubleSpeed_def toggleInterval_def

subsection \<open>What the dispatchers leave alone\<close>

lemma ReceivedCode_A_decoder:
  "irBits (ReceivedCode_A r s) = irBits s \<and> receivedData (ReceivedCode_A r s) = receivedData s"
  by (simp add: ReceivedCode_A_def Let_def play_eqs cmd_defs
      if_distrib [where f = irBits] if_distrib [where f = receivedData]
      split del: if_split cong del: if_weak_cong)

lemma ReceivedCode_B_decoder:
  "irBits (ReceivedCode_B r s) = irBits s \<and> receivedData (ReceivedCode_B r s) = receivedData s"
  by (simp add: ReceivedCode_B_def startLearning_B_def learnKey_B_def normal_B_def
      EEPROM_put_def Let_def play_eqs cmd_defs
      if_distrib [where f = irBits] if_distrib [where f = receivedData]
      split del: if_split cong del: if_weak_cong)

lemma ReceivedCode_C_decoder:
  "irBits (ReceivedCode_C r s) = irBits s \<and> receivedData (ReceivedCode_C r s) = receivedData s"
  by (simp add: ReceivedCode_C_def startLearning_C_def learnKey_C_def normal_C_def
      EEPROM_put_def Let_def play_eqs cmd_defs
      if_distrib [where f = irBits] if_distrib [where f = receivedData]
      split del: if_split cong del: if_weak_cong)

subsection \<open>Bits of the receive buffer\<close>

lemma clear_bit_above:
  fixes d :: uint32
  assumes "drop_bit n d = 0" and "n \<le> m"
  shows "\<not> bit d m"
proof -
  have "bit (drop_bit n d) (m - n) = bit d m"
    using assms(2) by (simp add: bit_drop_bit_eq)
  with assms(1) show ?thesis by simp
qed

lemma set_next_bit:
  fixes d :: uint32
  assumes n: "n < 32" and clear: "drop_bit n d = 0"
  shows "bit (d OR push_bit n 1) n"
    and "drop_bit (Suc n) (d OR push_bit n 1) = 0"
    and "take_bit n (d OR push_bit n 1) = d"
proof -
  show "bit (d OR push_bit n 1) n"
    using n by (simp add: bit_or_iff bit_push_bit_iff bit_1_iff del: push_bit_of_1)
  show "drop_bit (Suc n) (d OR push_bit n 1) = 0"
  proof (rule bit_eqI)
    fix k
    have "\<not> bit d (Suc n + k)" using clear by (rule clear_bit_above) simp
    then show "bit (drop_bit (Suc n) (d OR push_bit n 1)) k = bit (0::uint32) k"
      by (simp add: bit_drop_bit_eq bit_or_iff bit_push_bit_iff bit_1_iff del: push_bit_of_1)
  qed
  show "take_bit n (d OR push_bit n 1) = d"
  proof (rule bit_eqI)
    fix k
    show "bit (take_bit n (d OR push_bit n 1)) k = bit d k"
    proof (cases "n \<le> k")
      case True
      then have "\<not> bit d k" using clear clear_bit_above by blast
      with True show ?thesis unfolding bit_take_bit_iff by simp
    next
      case False
      then show ?thesis unfolding bit_take_bit_iff bit_or_iff bit_push_bit_iff bit_1_iff
        by simp
    qed
  qed
qed

lemma keep_next_bit:
  fixes d :: uint32
  assumes clear: "drop_bit n d = 0"
  shows "\<not> bit d n" and "drop_bit (Suc n) d = 0" and "take_bit n d = d"
proof -
  show "\<not> bit d n" using clear by (rule clear_bit_above) simp
  show "drop_bit (Suc n) d = 0"
  proof (rule bit_eqI)
    fix k
    have "\<not> bit d (Suc n + k)" using clear by (rule clear_bit_above) simp
    then show "bit (drop_bit (Suc n) d) k = bit (0::uint32) k"
      by (simp add: bit_drop_bit_eq)
  qed
  show "take_bit n d = d"
  proof (rule bit_eqI)
    fix k
    show "bit (take_bit n d) k = bit d k"
    proof (cases "n \<le> k")
      case True
      then have "\<not> bit d k" using clear clear_bit_above by blast
      with True show ?thesis unfolding bit_take_bit_iff by simp
    next
      case False
      then show ?thesis unfolding bit_take_bit_iff by simp
    qed
  qed
qed

lemma irBits_not_32: "unat (w :: int16) < 32 \<Longrightarrow> w \<noteq> 32"
  by auto

lemma irBits_31: "unat (w :: int16) < 32 \<Longrightarrow> unat (w + 1) = Suc (unat w)"
  by (simp add: unat_word_ariths)

subsection \<open>Sixteen-bit arithmetic of the divider\<close>

lemma sint16_of_int: "- 32768 \<le> k \<Longrightarrow> k < 32768 \<Longrightarrow> sint (word_of_int k :: int16) = k"
  by (simp add: sint_sbintrunc' signed_take_bit_int_eq_self)

lemma sint16_range: "- 32768 \<le> sint (w :: int16) \<and> sint w < 32768"
  using sint_range_size [of w] by (simp add: word_size)

lemma sint16_succ:
  assumes "sint (d :: int16) < 32767"
  shows "sint (d + 1) = sint d + 1"
proof -
  have "- 32768 \<le> sint d + 1" using sint16_range [of d] by simp
  moreover have "sint d + 1 < 32768" using assms by simp
  ultimately show ?thesis
    by (simp add: sint_word_add signed_take_bit_int_eq_self)
qed

lemma divider_step:
  assumes "0 \<le> sint (d :: int16)" and "sint d < sint (p :: int16)"
  shows "sint (int16_rem (d + 1) p) = (sint d + 1) mod sint p"
proof -
  have p: "sint p < 32768" using sint16_range [of p] by simp
  then have "sint d < 32767" using assms(2) by simp
  then have s: "sint (d + 1) = sint d + 1" by (rule sint16_succ)
  have pos: "0 < sint p" using assms by simp
  have m: "(sint d + 1) smod sint p = (sint d + 1) mod sint p"
    using assms pos by (simp add: smod_mod_positive)
  have lo: "0 \<le> (sint d + 1) mod sint p" using pos by simp
  have hi: "(sint d + 1) mod sint p < sint p" using pos by simp
  show ?thesis
    unfolding int16_rem_def s m
    using lo hi p by (simp add: sint16_of_int)
qed

lemma emitted_append [simp]: "trace s' = trace s @ as \<Longrightarrow> emitted s s' = as"
  by (simp add: emitted_def)

lemma TIMER1_fields:
  "postscaler (TIMER1_COMPA_vect (singleFrame t2 t3) s) = postscaler s"
  "divider (TIMER1_COMPA_vect (singleFrame t2 t3) s) = int16_rem (divider s + 1) (postscaler s)"
  "OCR1C (TIMER1_COMPA_vect (singleFrame t2 t3) s)
     = (if newIntervalStep s \<noteq> oldIntervalStep s then newIntervalStep s else OCR1C s)"
  "OCR1A (TIMER1_COMPA_vect (singleFrame t2 t3) s)
     = (if newIntervalStep s \<noteq> oldIntervalStep s then newIntervalStep s else OCR1A s)"
  "trace (TIMER1_COMPA_vect (singleFrame t2 t3) s)
     = trace s @ (if divider s = 0 then
         [DigitalWrite loadPin True, Delay_ms 10, DigitalWrite loadPin False,
          DigitalWrite startPin True, Delay_ms t2, DigitalWrite startPin False,
          DigitalWrite loadPin True, Delay_ms t3, DigitalWrite loadPin False] else [])"
  by (simp_all add: TIMER1_COMPA_vect_def Let_def singleFrame_def seq_def digitalWrite_def delay_ms_def)

lemma TIMER1_run:
  assumes pos: "0 < sint (postscaler s)" and zero: "divider s = 0"
  shows "postscaler ((TIMER1_COMPA_vect (singleFrame t2 t3) ^^ n) s) = postscaler s
       \<and> sint (divider ((TIMER1_COMPA_vect (singleFrame t2 t3) ^^ n) s))
           = int n mod sint (postscaler s)"
proof (induction n)
  case 0
  show ?case using zero by simp
next
  case (Suc n)
  let ?u = "(TIMER1_COMPA_vect (singleFrame t2 t3) ^^ n) s"
  have p: "postscaler ?u = postscaler s" using Suc.IH by simp
  have d: "sint (divider ?u) = int n mod sint (postscaler s)" using Suc.IH by simp
  have lo: "0 \<le> sint (divider ?u)" using d pos by simp
  have hi: "sint (divider ?u) < sint (postscaler s)" using d pos by simp
  have "sint (int16_rem (divider ?u + 1) (postscaler s))
          = (sint (divider ?u) + 1) mod sint (postscaler s)"
    using lo hi by (rule divider_step)
  also have "\<dots> = int (Suc n) mod sint (postscaler s)"
    unfolding d by (simp add: mod_simps add.commute)
  finally show ?case by (simp add: TIMER1_fields p)
qed

subsection \<open>Who writes the compare registers\<close>

lemma ReceivedCode_A_compare:
  "OCR1C (ReceivedCode_A r s) = OCR1C s \<and> OCR1A (ReceivedCode_A r s) = OCR1A s"
  by (simp add: ReceivedCode_A_def Let_def play_eqs cmd_defs
      if_distrib [where f = OCR1C] if_distrib [where f = OCR1A]
      split del: if_split cong del: if_weak_cong)

lemma ReceivedCode_B_compare:
  "OCR1C (ReceivedCode_B r s) = OCR1C s \<and> OCR1A (ReceivedCode_B r s) = OCR1A s"
  by (simp add: ReceivedCode_B_def startLearning_B_def learnKey_B_def normal_B_def
      EEPROM_put_def Let_def play_eqs cmd_defs
      if_distrib [where f = OCR1C] if_distrib [where f = OCR1A]
      split del: if_split cong del: if_weak_cong)

lemma ReceivedCode_C_compare:
  "OCR1C (ReceivedCode_C r s) = OCR1C s \<and> OCR1A (ReceivedCode_C r s) = OCR1A s"
  by (simp add: ReceivedCode_C_def startLearning_C_def learnKey_C_def normal_C_def
      EEPROM_put_def Let_def play_eqs cmd_defs
      if_distrib [where f = OCR1C] if_distrib [where f = OCR1A]
      split del: if_split cong del: if_weak_cong)

lemma INT0_vect_compare:
  assumes "\<And>r t. OCR1C (rc r t) = OCR1C t \<and> OCR1A (rc r t) = OCR1A t"
  shows "OCR1C (INT0_vect rc s) = OCR1C s \<and> OCR1A (INT0_vect rc s) = OCR1A s"
  using assms by (simp add: INT0_vect_def Let_def)

lemma loop_compare:
  "OCR1C (loop_B now sb) = OCR1C sb \<and> OCR1A (loop_B now sb) = OCR1A sb"
  "OCR1C (loop_C now sc) = OCR1C sc \<and> OCR1A (loop_C now sc) = OCR1A sc"
  by (simp_all add: loop_B_def loop_C_def Let_def digitalWrite_def play_eqs)

subsection \<open>Runs of edges\<close>

lemma setup_decoder:
  "irBits setup_A = 32 \<and> receivedData setup_A = 0"
  "irBits (setup_B rom now) = 32 \<and> receivedData (setup_B rom now) = 0"
  "irBits (setup_C rom now) = 32 \<and> receivedData (setup_C rom now) = 0"
  by (simp_all add: setup_A_def setup_B_def setup_C_def)

lemma edges_Nil [simp]: "edges rc [] s = s"
  by (simp add: edges_def)

lemma edges_Cons [simp]: "edges rc (e # es) s = edges rc es (edge rc e s)"
  by (simp add: edges_def)

lemma bufferClear_INT0_vect:
  assumes frame: "\<And>r t. irBits (rc r t) = irBits t \<and> receivedData (rc r t) = receivedData t"
    and inv: "bufferClear s"
  shows "bufferClear (INT0_vect rc s)"
proof (cases "irBits s = 32")
  case True
  then show ?thesis
    using frame by (simp add: INT0_vect_def Let_def bufferClear_def)
next
  case False
  with inv have n: "unat (irBits s) < 32"
    and c: "drop_bit (unat (irBits s)) (receivedData s) = 0"
    by (simp_all add: bufferClear_def)
  have suc: "unat (irBits s + 1) = Suc (unat (irBits s))" using n by (rule irBits_31)
  have last: "irBits s + 1 \<noteq> 32 \<Longrightarrow> Suc (unat (irBits s)) < 32"
  proof -
    assume "irBits s + 1 \<noteq> 32"
    then have "unat (irBits s + 1) \<noteq> 32"
      by (simp add: word_unat_eq_iff)
    with suc n show ?thesis by simp
  qed
  show ?thesis
    using False frame last suc set_next_bit(2) [OF n c] keep_next_bit(2) [OF c]
    by (simp add: INT0_vect_def Let_def bufferClear_def)
qed

lemma bufferClear_edges:
  assumes frame: "\<And>r t. irBits (rc r t) = irBits t \<and> receivedData (rc r t) = receivedData t"
  shows "bufferClear s \<Longrightarrow> bufferClear (edges rc es s)"
proof (induction es arbitrary: s)
  case Nil
  then show ?case by simp
next
  case (Cons e es)
  have "bufferClear (s\<lparr>TCNT0 := fst e, TOV0 := snd e\<rparr>)"
    using Cons.prems by (simp add: bufferClear_def)
  then have "bufferClear (edge rc e s)"
    unfolding edge_def using frame by (intro bufferClear_INT0_vect)
  then show ?case using Cons.IH by simp
qed

lemma bufferClear_setup:
  "bufferClear setup_A" "bufferClear (setup_B rom now)" "bufferClear (setup_C rom now)"
  by (simp_all add: bufferClear_def setup_A_def setup_B_def setup_C_def)

subsection \<open>The learn branch\<close>

lemmas key_defs_A =
  RC_CODE_def UP_KEY_def DOWN_KEY_def LEFT_KEY_def RIGHT_KEY_def MENU_KEY_def
  ALU_CENTER_KEY_def ALU_PLAY_KEY_def WHITE_PLAY_KEY_def

lemma filter_put_blinks [simp]:
  "filter isEepromPut [DigitalWrite p1 v1, Delay_ms n1, DigitalWrite p2 v2, Delay_ms n2,
      DigitalWrite p3 v3, Delay_ms n3, DigitalWrite p4 v4] = []"
  by simp

lemma ReceivedCode_B_learning:
  "learnMode s \<Longrightarrow> ReceivedCode_B Repeat s
     = (if garbage_guard_B (receivedData s) then learnKey_B Repeat s else s)"
  by (simp add: ReceivedCode_B_def)

lemma learnKey_B_miss:
  "\<not> (receivedData s AND 0xFFFF = ucast (learnedIrRcCode s) \<and> \<not> Repeat) \<Longrightarrow>
     learnKey_B Repeat s = s"
  unfolding learnKey_B_def by (rule if_not_P)

lemma learnKey_B_slot:
  assumes "receivedData s AND 0xFFFF = ucast (learnedIrRcCode s)"
    and "firstUnfilled (slots_B s) < 7"
  shows "slots_B (learnKey_B False s)
           = (slots_B s)[firstUnfilled (slots_B s) := key8 (receivedData s)]"
  using assms
  by (simp add: learnKey_B_def slots_B_def Let_def play_eqs EEPROM_put_def)

lemma learnKey_B_last:
  assumes "receivedData s AND 0xFFFF = ucast (learnedIrRcCode s)"
    and "firstUnfilled (slots_B s) = 6"
  shows "\<not> learnMode (learnKey_B False s)
       \<and> EEPROM (learnKey_B False s) = profile_B (learnKey_B False s)
       \<and> filter isEepromPut (emitted s (learnKey_B False s))
           = [EepromPut (profile_B (learnKey_B False s))]"
  using assms
  by (simp add: learnKey_B_def slots_B_def profile_B_def Let_def play_eqs EEPROM_put_def
      emitted_def split: if_splits)

lemma learnKey_B_not_last:
  assumes "learnMode s" and "firstUnfilled (slots_B s) \<noteq> 6"
  shows "learnMode (learnKey_B Repeat s)
       \<and> EEPROM (learnKey_B Repeat s) = EEPROM s
       \<and> filter isEepromPut (emitted s (learnKey_B Repeat s)) = []"
  using assms
  by (simp add: learnKey_B_def slots_B_def Let_def play_eqs EEPROM_put_def
      emitted_def split: if_splits)

lemma ReceivedCode_C_learning:
  "learnMode s \<Longrightarrow> ReceivedCode_C Repeat s
     = (if garbage_guard_C (receivedData s) then learnKey_C s else s)"
  by (simp add: ReceivedCode_C_def)

lemma learnKey_C_miss:
  "receivedData s AND 0xFFFF \<noteq> ucast (irRcCode s) \<Longrightarrow>
     learnKey_C s = s"
  unfolding learnKey_C_def by (rule if_not_P)

lemma learnKey_C_slot:
  assumes "receivedData s AND 0xFFFF = ucast (irRcCode s)"
    and "firstUnfilled (slots_C s) < 7"
  shows "slots_C (learnKey_C s)
           = (slots_C s)[firstUnfilled (slots_C s) := key8 (receivedData s)]"
  using assms
  by (simp add: learnKey_C_def slots_C_def Let_def play_eqs EEPROM_put_def)

lemma learnKey_C_last:
  assumes "receivedData s AND 0xFFFF = ucast (irRcCode s)"
    and "firstUnfilled (slots_C s) = 6"
  shows "\<not> learnMode (learnKey_C s)
       \<and> EEPROM (learnKey_C s) = profile_C (learnKey_C s)
       \<and> filter isEepromPut (emitted s (learnKey_C s))
           = [EepromPut (profile_C (learnKey_C s))]"
  using assms
  by (simp add: learnKey_C_def slots_C_def profile_C_def Let_def play_eqs EEPROM_put_def
      emitted_def split: if_splits)

lemma learnKey_C_not_last:
  assumes "learnMode s" and "firstUnfilled (slots_C s) \<noteq> 6"
  shows "learnMode (learnKey_C s)
       \<and> EEPROM (learnKey_C s) = EEPROM s
       \<and> filter isEepromPut (emitted s (learnKey_C s)) = []"
  using assms
  by (simp add: learnKey_C_def slots_C_def Let_def play_eqs EEPROM_put_def
      emitted_def split: if_splits)

subsection \<open>The latch of the aluminium remote\<close>

lemmas key_defs_B =
  appleIrRcCode_def appleIrPlayKey_def appleIrOneFrameKey_def appleIrIntervalKey_def
  appleIrFasterKey_def appleIrSlowerKey_def appleIrDoubleSpeedKey_def appleIrHalfSpeedKey_def
  appleIrWhitePlayKey_def

lemma dispatchAll_Nil [simp]: "dispatchAll rc [] s = s"
  by (simp add: dispatchAll_def)

lemma dispatchAll_Cons [simp]: "dispatchAll rc (f # fs) s = dispatchAll rc fs (dispatch rc f s)"
  by (simp add: dispatchAll_def)

lemma ReceivedCode_A_latch_kept: "aluRemote s \<Longrightarrow> aluRemote (ReceivedCode_A r s)"
  by (simp add: ReceivedCode_A_def Let_def play_eqs cmd_defs
      if_distrib [where f = aluRemote] split del: if_split cong del: if_weak_cong)

lemma ReceivedCode_B_latch_kept: "aluRemote s \<Longrightarrow> aluRemote (ReceivedCode_B r s)"
  by (simp add: ReceivedCode_B_def startLearning_B_def learnKey_B_def normal_B_def
      EEPROM_put_def Let_def play_eqs cmd_defs
      if_distrib [where f = aluRemote] split del: if_split cong del: if_weak_cong)

lemma dispatchAll_A_latch_kept:
  "aluRemote s \<Longrightarrow> aluRemote (dispatchAll ReceivedCode_A fs s)"
  by (induction fs arbitrary: s) (simp_all add: dispatch_def ReceivedCode_A_latch_kept)

lemma dispatchAll_B_latch_kept:
  "aluRemote s \<Longrightarrow> aluRemote (dispatchAll ReceivedCode_B fs s)"
  by (induction fs arbitrary: s) (simp_all add: dispatch_def ReceivedCode_B_latch_kept)

lemma ReceivedCode_A_latch_set:
  assumes "address (receivedData s) = RC_CODE"
    and "key7 (receivedData s) = ALU_PLAY_KEY \<or> key7 (receivedData s) = ALU_CENTER_KEY"
  shows "aluRemote (ReceivedCode_A False s)"
  using assms
  by (simp add: ReceivedCode_A_def Let_def play_eqs cmd_defs
      if_distrib [where f = aluRemote] split del: if_split cong del: if_weak_cong, auto)

lemma ReceivedCode_A_white_ignored:
  assumes "aluRemote s" and "address (receivedData s) = RC_CODE"
    and "key7 (receivedData s) = WHITE_PLAY_KEY"
  shows "ReceivedCode_A r s = s\<lparr>blinkFlag := True\<rparr>"
  using assms
  by (simp add: ReceivedCode_A_def Let_def key_defs_A split del: if_split)

lemma ReceivedCode_B_normal:
  "\<not> justBooted s \<Longrightarrow> \<not> learnMode s \<Longrightarrow> garbage_guard_B (receivedData s) \<Longrightarrow>
     ReceivedCode_B r s = normal_B r s"
  by (simp add: ReceivedCode_B_def)

lemma normal_B_latch_set:
  assumes "receivedData s AND 0xFFFF = appleIrRcCode"
    and "key7 (receivedData s) = appleIrPlayKey \<or> key7 (receivedData s) = appleIrOneFrameKey"
  shows "aluRemote (normal_B False s)"
  using assms
  by (simp add: normal_B_def Let_def play_eqs cmd_defs
      if_distrib [where f = aluRemote] split del: if_split cong del: if_weak_cong, auto)

lemma key7_of_key8:
  "drop_bit 17 d AND (0x7F :: uint32) = drop_bit 1 (drop_bit 16 d AND 0xFF)"
proof -
  have m7: "(0x7F :: uint32) = mask 7" by (simp add: mask_eq_exp_minus_1)
  have m8: "(0xFF :: uint32) = mask 8" by (simp add: mask_eq_exp_minus_1)
  show ?thesis
    unfolding m7 m8
    by (rule bit_eqI) (auto simp add: bit_and_iff bit_drop_bit_eq bit_mask_iff)
qed

lemma key7_guard:
  assumes "key7 d = appleIrPlayKey \<or> key7 d = appleIrOneFrameKey"
  shows "garbage_guard_B d"
proof -
  have "drop_bit 16 d AND 0xFF = 0xFF \<Longrightarrow> key7 d = 0x7F"
    by (simp add: key7_def key7_of_key8)
  moreover have "drop_bit 16 d AND 0xFF = 0 \<Longrightarrow> key7 d = 0"
    by (simp add: key7_def key7_of_key8)
  ultimately show ?thesis
    using assms by (auto simp add: garbage_guard_B_def key_defs_B)
qed

lemma normal_B_white:
  assumes latch: "aluRemote s"
    and addr: "receivedData s AND 0xFFFF = appleIrRcCode"
    and key: "key7 (receivedData s) = appleIrWhitePlayKey"
    and play: "learnedIrPlayKey s \<noteq> 0x02"
  shows "\<not> startsOrStopsRun (emitted s (normal_B r s))"
  using assms
  by (simp add: normal_B_def Let_def play_eqs cmd_defs key_defs_B emitted_def
      startsOrStopsRun_def digitalRead_def pin_defs)

lemma ReceivedCode_B_white:
  assumes latch: "aluRemote s"
    and addr: "receivedData s AND 0xFFFF = appleIrRcCode"
    and key: "key7 (receivedData s) = appleIrWhitePlayKey"
    and play: "learnedIrPlayKey s \<noteq> 0x02"
  shows "\<not> startsOrStopsRun (emitted s (ReceivedCode_B r s))"
proof -
  have boot: "\<not> startsOrStopsRun (emitted s (startLearning_B s))"
    by (simp add: startLearning_B_def Let_def play_eqs emitted_def startsOrStopsRun_def pin_defs)
  have learn: "\<not> startsOrStopsRun (emitted s (learnKey_B r s))"
    by (simp add: learnKey_B_def Let_def play_eqs EEPROM_put_def emitted_def
        startsOrStopsRun_def pin_defs)
  have idle: "\<not> startsOrStopsRun (emitted s s)"
    by (simp add: emitted_def startsOrStopsRun_def)
  show ?thesis
    using boot learn idle normal_B_white [OF assms, of r]
    by (simp add: ReceivedCode_B_def)
qed

lemma handlers_latch:
  "aluRemote (TIMER1_COMPA_vect (singleFrame t2 t3) s) = aluRemote s"
  "aluRemote (loop_B now sb) = aluRemote sb"
  by (simp_all add: TIMER1_COMPA_vect_def Let_def singleFrame_eq loop_B_def digitalWrite_def)

subsection \<open>The clamps of the interval commands\<close>

lemma postscaler_in_int16: "sint (postscaler s) \<noteq> 32768"
  using sint16_range [of "postscaler s"] by simp

lemma halfSpeed_in_range:
  assumes "1 \<le> sint (postscaler s)" and "sint (postscaler s) < 16384"
  shows "sint (postscaler (halfSpeed s)) = 2 * sint (postscaler s)"
proof -
  have c: "sint (2 * postscaler s) = 2 * sint (postscaler s)"
    using assms by (simp add: sint_word_ariths signed_take_bit_int_eq_self)
  then have e: "sint (postscaler s * 2) = 2 * sint (postscaler s)"
    by (simp only: mult.commute [of "postscaler s" 2])
  have "postscaler (halfSpeed s) = word_of_int (constrain (sint (postscaler s * 2)) 1 32768)"
    unfolding halfSpeed_def by simp
  also have "constrain (sint (postscaler s * 2)) 1 32768 = 2 * sint (postscaler s)"
    unfolding e constrain_def using assms by simp
  finally show ?thesis
    using c by simp
qed

lemma halfSpeed_overflow:
  assumes "sint (postscaler s) = 16384"
  shows "sint (postscaler (halfSpeed s)) = 1"
proof -
  have "sint (postscaler s * 2) = signed_take_bit 15 (sint (postscaler s) * sint (2 :: int16))"
    by (simp add: sint_word_ariths)
  then have "sint (postscaler s * 2) = - 32768"
    using assms by (simp add: signed_take_bit_eq_take_bit_minus)
  then show ?thesis
    by (simp add: halfSpeed_def constrain_def)
qed

lemma doubleSpeed_postscaler:
  assumes "1 \<le> sint (postscaler s)"
  shows "sint (postscaler (doubleSpeed s)) = max 1 (sint (postscaler s) div 2)"
proof -
  have r: "- 32768 \<le> sint (postscaler s) div 2 \<and> sint (postscaler s) div 2 < 32768"
    using sint16_range [of "postscaler s"] assms by auto
  have d: "sint (int16_div (postscaler s) 2) = sint (postscaler s) div 2"
    using assms r by (simp add: int16_div_def signed_divide_int_def sint16_of_int sgn_if)
  have "sint (postscaler (doubleSpeed s))
      = sint (word_of_int (constrain (sint (int16_div (postscaler s) 2)) 1 32768) :: int16)"
    by (simp add: doubleSpeed_def Let_def)
  also have "\<dots> = max 1 (sint (postscaler s) div 2)"
    unfolding d using r by (simp add: constrain_def sint16_of_int max_def)
  finally show ?thesis .
qed

lemma uint8_of_int: "0 \<le> k \<Longrightarrow> k < 256 \<Longrightarrow> uint (word_of_int k :: byte) = k"
  by (simp add: uint_word_of_int take_bit_int_eq_self)

lemma stepFloor_faster: "stepFloor (faster s)"
  by (simp add: faster_def stepFloor_def Let_def constrain_def uint8_of_int)

lemma stepFloor_doubleSpeed: "stepFloor (doubleSpeed s)"
  by (auto simp add: doubleSpeed_def stepFloor_def Let_def)

lemma stepFloor_slower: "stepFloor s \<Longrightarrow> stepFloor (slower s)"
proof -
  assume a: "stepFloor s"
  have r: "uint (newIntervalStep s) < 256"
    using uint_bounded [of "newIntervalStep s"] by simp
  show ?thesis
    using a r by (simp add: slower_def stepFloor_def Let_def constrain_def uint8_of_int
        split: if_splits)
qed

lemma stepFloor_halfSpeed:
  assumes "stepFloor s" and "sint (postscaler s) < 16384"
  shows "stepFloor (halfSpeed s)"
proof (cases "sint (postscaler s) \<le> 4")
  case True
  with assms(1) have "11 \<le> uint (newIntervalStep s)" by (simp add: stepFloor_def)
  then show ?thesis by (simp add: stepFloor_def halfSpeed_def)
next
  case False
  then have "sint (postscaler (halfSpeed s)) = 2 * sint (postscaler s)"
    using assms(2) by (intro halfSpeed_in_range) simp_all
  with False show ?thesis by (simp add: stepFloor_def)
qed

section \<open>The infrared decoder\<close>

text \<open>
  Claim C2. While the decoder awaits a leader (\<open>irBits = 32\<close>), an edge after 194..228
  ticks without overflow clears the buffer and starts bit 0; an edge after 159..193 ticks
  without overflow calls the dispatcher once with \<open>Repeat = True\<close> on the buffered frame
  and leaves bit counter and buffer as they were; any other edge calls nothing and changes
  nothing but the counter and its overflow flag, which every invocation resets. The
  second hypothesis is what the three dispatchers satisfy: they never write the decoder's
  two variables.
\<close>

theorem C2_awaiting_leader:
  assumes await: "irBits s = 32"
    and frame: "\<And>r t. irBits (rc r t) = irBits t \<and> receivedData (rc r t) = receivedData t"
  shows "(194 \<le> uint (TCNT0 s) \<and> uint (TCNT0 s) \<le> 228 \<and> \<not> TOV0 s \<longrightarrow>
            INT0_vect rc s = s\<lparr>receivedData := 0, irBits := 0, TCNT0 := 0, TOV0 := False\<rparr>)
       \<and> (159 \<le> uint (TCNT0 s) \<and> uint (TCNT0 s) \<le> 193 \<and> \<not> TOV0 s \<longrightarrow>
            INT0_vect rc s = (rc True s)\<lparr>TCNT0 := 0, TOV0 := False\<rparr>
            \<and> irBits (INT0_vect rc s) = 32
            \<and> receivedData (INT0_vect rc s) = receivedData s)
       \<and> (uint (TCNT0 s) < 159 \<or> 228 < uint (TCNT0 s) \<or> TOV0 s \<longrightarrow>
            INT0_vect rc s = s\<lparr>TCNT0 := 0, TOV0 := False\<rparr>)"
  using await frame by (auto simp add: INT0_vect_def Let_def)

theorem C2_awaiting_leader_witness:
  "INT0_vect ReceivedCode_A (setup_A\<lparr>TCNT0 := 200\<rparr>)
     = setup_A\<lparr>receivedData := 0, irBits := 0, TCNT0 := 0, TOV0 := False\<rparr>
   \<and> irBits (INT0_vect ReceivedCode_A (setup_A\<lparr>TCNT0 := 170\<rparr>)) = 32
   \<and> receivedData (INT0_vect ReceivedCode_A (setup_A\<lparr>TCNT0 := 170\<rparr>)) = 0
   \<and> INT0_vect ReceivedCode_A (setup_A\<lparr>TCNT0 := 100\<rparr>) = setup_A\<lparr>TCNT0 := 0, TOV0 := False\<rparr>"
proof -
  have a: "irBits (setup_A\<lparr>TCNT0 := t\<rparr>) = 32" for t
    by (simp add: setup_A_def)
  show ?thesis
    using C2_awaiting_leader [OF a [of 200], of ReceivedCode_A, OF ReceivedCode_A_decoder]
      C2_awaiting_leader [OF a [of 170], of ReceivedCode_A, OF ReceivedCode_A_decoder]
      C2_awaiting_leader [OF a [of 100], of ReceivedCode_A, OF ReceivedCode_A_decoder]
    by (simp add: setup_A_def ReceivedCode_A_decoder)
qed

text \<open>
  Claim C3. While the decoder receives bits (\<open>irBits\<close> in 0..31, the bits from
  \<open>irBits\<close> up still clear, as the leader left them), an edge after more than 44 ticks
  or with the overflow flag set only sets \<open>irBits\<close> to 32 and calls nothing. Any other
  edge makes bit \<open>irBits\<close> of the buffer 1 exactly when more than 26 ticks went by,
  keeps the bits below, calls the dispatcher with \<open>Repeat = False\<close> exactly when
  \<open>irBits = 31\<close>, and then increments \<open>irBits\<close>, so that after bit 31 the counter reads
  32, the awaiting state. The hypothesis on the buffer holds in every state the decoder
  reaches from \<^verbatim>\<open>setup()\<close> (\<open>bufferClear_edges\<close>, \<open>bufferClear_setup\<close>).
\<close>

theorem C3_receiving_bits:
  assumes recv: "unat (irBits s) < 32"
    and clear: "drop_bit (unat (irBits s)) (receivedData s) = 0"
    and frame: "\<And>r t. irBits (rc r t) = irBits t \<and> receivedData (rc r t) = receivedData t"
  shows "(44 < uint (TCNT0 s) \<or> TOV0 s \<longrightarrow>
            INT0_vect rc s = s\<lparr>irBits := 32, TCNT0 := 0, TOV0 := False\<rparr>)
       \<and> (uint (TCNT0 s) \<le> 44 \<and> \<not> TOV0 s \<longrightarrow>
            (let buf = (if 26 < uint (TCNT0 s)
                        then receivedData s OR push_bit (unat (irBits s)) 1
                        else receivedData s);
                 t = s\<lparr>receivedData := buf\<rparr>
             in INT0_vect rc s =
                  (if irBits s = 31 then rc False t else t)
                    \<lparr>irBits := irBits s + 1, TCNT0 := 0, TOV0 := False\<rparr>
                \<and> receivedData (INT0_vect rc s) = buf
                \<and> irBits (INT0_vect rc s) = irBits s + 1
                \<and> bit buf (unat (irBits s)) = (26 < uint (TCNT0 s))
                \<and> take_bit (unat (irBits s)) buf = receivedData s
                \<and> drop_bit (unat (irBits s + 1)) buf = 0))"
proof -
  have ne: "irBits s \<noteq> 32" using recv by (rule irBits_not_32)
  have suc: "unat (irBits s + 1) = Suc (unat (irBits s))" using recv by (rule irBits_31)
  have abandon: "44 < uint (TCNT0 s) \<or> TOV0 s \<longrightarrow>
      INT0_vect rc s = s\<lparr>irBits := 32, TCNT0 := 0, TOV0 := False\<rparr>"
    using ne by (auto simp add: INT0_vect_def Let_def)
  have store: "uint (TCNT0 s) \<le> 44 \<and> \<not> TOV0 s \<longrightarrow>
            (let buf = (if 26 < uint (TCNT0 s)
                        then receivedData s OR push_bit (unat (irBits s)) 1
                        else receivedData s);
                 t = s\<lparr>receivedData := buf\<rparr>
             in INT0_vect rc s =
                  (if irBits s = 31 then rc False t else t)
                    \<lparr>irBits := irBits s + 1, TCNT0 := 0, TOV0 := False\<rparr>
                \<and> receivedData (INT0_vect rc s) = buf
                \<and> irBits (INT0_vect rc s) = irBits s + 1)"
    using ne frame by (auto simp add: INT0_vect_def Let_def)
  have bits: "(let buf = (if 26 < uint (TCNT0 s)
                        then receivedData s OR push_bit (unat (irBits s)) 1
                        else receivedData s)
      in bit buf (unat (irBits s)) = (26 < uint (TCNT0 s))
                \<and> take_bit (unat (irBits s)) buf = receivedData s
                \<and> drop_bit (unat (irBits s + 1)) buf = 0)"
    using set_next_bit [OF recv clear] keep_next_bit [OF clear]
    by (simp add: Let_def suc)
  show ?thesis using abandon store bits unfolding Let_def by blast
qed

theorem C3_receiving_bits_witness:
  "irBits (INT0_vect ReceivedCode_A (setup_A\<lparr>irBits := 31, TCNT0 := 30\<rparr>)) = 32
   \<and> receivedData (INT0_vect ReceivedCode_A (setup_A\<lparr>irBits := 31, TCNT0 := 30\<rparr>))
       = 0x80000000
   \<and> INT0_vect ReceivedCode_A (setup_A\<lparr>irBits := 31, TCNT0 := 30\<rparr>)
       = (ReceivedCode_A False (setup_A\<lparr>irBits := 31, TCNT0 := 30, receivedData := 0x80000000\<rparr>))
           \<lparr>irBits := 32, TCNT0 := 0, TOV0 := False\<rparr>
   \<and> INT0_vect ReceivedCode_A (setup_A\<lparr>irBits := 5, TCNT0 := 45\<rparr>)
       = setup_A\<lparr>irBits := 32, TCNT0 := 0, TOV0 := False\<rparr>"
proof -
  have a: "unat (irBits (setup_A\<lparr>irBits := 31, TCNT0 := 30\<rparr>)) < 32"
    by (simp add: setup_A_def)
  have b: "drop_bit (unat (irBits (setup_A\<lparr>irBits := 31, TCNT0 := 30\<rparr>)))
             (receivedData (setup_A\<lparr>irBits := 31, TCNT0 := 30\<rparr>)) = 0"
    by (simp add: setup_A_def)
  have c: "unat (irBits (setup_A\<lparr>irBits := 5, TCNT0 := 45\<rparr>)) < 32"
    by (simp add: setup_A_def)
  have d: "drop_bit (unat (irBits (setup_A\<lparr>irBits := 5, TCNT0 := 45\<rparr>)))
             (receivedData (setup_A\<lparr>irBits := 5, TCNT0 := 45\<rparr>)) = 0"
    by (simp add: setup_A_def)
  show ?thesis
    using C3_receiving_bits [OF a b, of ReceivedCode_A, OF ReceivedCode_A_decoder]
      C3_receiving_bits [OF c d, of ReceivedCode_A, OF ReceivedCode_A_decoder]
    by (simp add: setup_A_def Let_def ReceivedCode_A_decoder)
qed


text \<open>
  Claim C10. A repeat gap (159..193 ticks, no overflow) met while the decoder awaits a
  leader calls the dispatcher with \<open>Repeat = True\<close> on whatever the buffer holds; the
  handler keeps no record of a frame ever having been completed. After \<^verbatim>\<open>setup()\<close>
  the buffer is 0 and the decoder awaits a leader, in all three revisions. Abandoning a
  frame sets \<open>irBits\<close> back to 32 and leaves the buffer as it is, so after a leader, one
  long bit and a gap that is too long, a repeat gap dispatches the partial buffer 1.
\<close>

theorem C10_repeat_without_frame:
  fixes s :: "'a machine_scheme" and rc :: "bool \<Rightarrow> 'a machine_scheme \<Rightarrow> 'a machine_scheme"
    and rc' :: "bool \<Rightarrow> machine \<Rightarrow> machine"
  shows
   "(irBits s = 32 \<and> 159 \<le> uint (TCNT0 s) \<and> uint (TCNT0 s) \<le> 193 \<and> \<not> TOV0 s \<longrightarrow>
       INT0_vect rc s = (rc True s)\<lparr>TCNT0 := 0, TOV0 := False\<rparr>)
    \<and> (irBits s \<noteq> 32 \<and> (44 < uint (TCNT0 s) \<or> TOV0 s) \<longrightarrow>
       irBits (INT0_vect rc s) = 32 \<and> receivedData (INT0_vect rc s) = receivedData s)
    \<and> irBits setup_A = 32 \<and> receivedData setup_A = 0
    \<and> irBits (setup_B rom now) = 32 \<and> receivedData (setup_B rom now) = 0
    \<and> irBits (setup_C rom now) = 32 \<and> receivedData (setup_C rom now) = 0
    \<and> edge rc' (170, False) setup_A
         = (rc' True (setup_A\<lparr>TCNT0 := 170\<rparr>))\<lparr>TCNT0 := 0, TOV0 := False\<rparr>
    \<and> edges rc' [(200, False), (30, False), (100, False), (170, False)] setup_A
         = (rc' True (setup_A\<lparr>receivedData := 1, TCNT0 := 170\<rparr>))
             \<lparr>TCNT0 := 0, TOV0 := False\<rparr>"
proof -
  have run: "edges rc' [(200, False), (30, False), (100, False), (170, False)] setup_A
         = (rc' True (setup_A\<lparr>receivedData := 1, TCNT0 := 170\<rparr>))
             \<lparr>TCNT0 := 0, TOV0 := False\<rparr>"
    by (simp add: edge_def INT0_vect_def Let_def setup_A_def)
  have boot: "edge rc' (170, False) setup_A
         = (rc' True (setup_A\<lparr>TCNT0 := 170\<rparr>))\<lparr>TCNT0 := 0, TOV0 := False\<rparr>"
    by (simp add: edge_def INT0_vect_def Let_def setup_A_def)
  show ?thesis
    using run boot by (simp add: setup_decoder INT0_vect_def Let_def)
qed

theorem C10_repeat_without_frame_witness:
  "INT0_vect ReceivedCode_A (setup_A\<lparr>TCNT0 := 170\<rparr>)
     = (ReceivedCode_A True (setup_A\<lparr>TCNT0 := 170\<rparr>))\<lparr>TCNT0 := 0, TOV0 := False\<rparr>
   \<and> receivedData (INT0_vect ReceivedCode_A (setup_A\<lparr>irBits := 3, receivedData := 5, TCNT0 := 100\<rparr>)) = 5
   \<and> irBits (INT0_vect ReceivedCode_A (setup_A\<lparr>irBits := 3, receivedData := 5, TCNT0 := 100\<rparr>)) = 32"
proof -
  have a: "irBits (setup_A\<lparr>TCNT0 := 170\<rparr>) = 32
      \<and> 159 \<le> uint (TCNT0 (setup_A\<lparr>TCNT0 := 170\<rparr>))
      \<and> uint (TCNT0 (setup_A\<lparr>TCNT0 := 170\<rparr>)) \<le> 193
      \<and> \<not> TOV0 (setup_A\<lparr>TCNT0 := 170\<rparr>)"
    by (simp add: setup_A_def)
  have b: "irBits (setup_A\<lparr>irBits := 3, receivedData := 5, TCNT0 := 100\<rparr>) \<noteq> 32
      \<and> (44 < uint (TCNT0 (setup_A\<lparr>irBits := 3, receivedData := 5, TCNT0 := 100\<rparr>))
         \<or> TOV0 (setup_A\<lparr>irBits := 3, receivedData := 5, TCNT0 := 100\<rparr>))"
    by (simp add: setup_A_def)
  have "INT0_vect ReceivedCode_A (setup_A\<lparr>TCNT0 := 170\<rparr>)
     = (ReceivedCode_A True (setup_A\<lparr>TCNT0 := 170\<rparr>))\<lparr>TCNT0 := 0, TOV0 := False\<rparr>"
    using C10_repeat_without_frame [where s = "setup_A\<lparr>TCNT0 := 170\<rparr>"
        and rc = ReceivedCode_A and rc' = ReceivedCode_A and rom = erased_rom and now = 0,
        THEN conjunct1] a
    by (rule mp)
  moreover have "irBits (INT0_vect ReceivedCode_A
        (setup_A\<lparr>irBits := 3, receivedData := 5, TCNT0 := 100\<rparr>)) = 32
      \<and> receivedData (INT0_vect ReceivedCode_A
        (setup_A\<lparr>irBits := 3, receivedData := 5, TCNT0 := 100\<rparr>))
        = receivedData (setup_A\<lparr>irBits := 3, receivedData := 5, TCNT0 := 100\<rparr>)"
    using C10_repeat_without_frame
      [where s = "setup_A\<lparr>irBits := 3, receivedData := 5, TCNT0 := 100\<rparr>"
         and rc = ReceivedCode_A and rc' = ReceivedCode_A and rom = erased_rom and now = 0,
         THEN conjunct2, THEN conjunct1] b
    by (rule mp)
  ultimately show ?thesis by simp
qed

section \<open>The interval timer\<close>

text \<open>
  Claim C6. The compare handler writes the staged step into \<open>OCR1C\<close> and \<open>OCR1A\<close>
  exactly when \<open>newIntervalStep\<close> differs from \<open>oldIntervalStep\<close>; the edge handler
  with any of the three dispatchers and the main loops leave both registers alone. The
  handler runs \<^verbatim>\<open>singleFrame\<close> exactly when \<open>divider = 0\<close> and then sets
  \<open>divider\<close> to the remainder of \<open>divider + 1\<close> by \<open>postscaler\<close>, which it does not
  change. With a postscaler \<open>p > 0\<close> and \<open>divider\<close> starting at 0, interrupt number
  \<open>n + 1\<close> runs \<^verbatim>\<open>singleFrame\<close> exactly when \<open>p\<close> divides \<open>n\<close>.
\<close>

theorem C6_interval_timer:
  fixes s :: "'a machine_scheme" and sa :: "'b machine_scheme"
    and sb :: machineB and sc :: machineC
  shows
   "OCR1C (TIMER1_COMPA_vect (singleFrame t2 t3) s)
      = (if newIntervalStep s \<noteq> oldIntervalStep s then newIntervalStep s else OCR1C s)
    \<and> OCR1A (TIMER1_COMPA_vect (singleFrame t2 t3) s)
      = (if newIntervalStep s \<noteq> oldIntervalStep s then newIntervalStep s else OCR1A s)
    \<and> OCR1C (INT0_vect ReceivedCode_A sa) = OCR1C sa
    \<and> OCR1A (INT0_vect ReceivedCode_A sa) = OCR1A sa
    \<and> OCR1C (INT0_vect ReceivedCode_B sb) = OCR1C sb
    \<and> OCR1A (INT0_vect ReceivedCode_B sb) = OCR1A sb
    \<and> OCR1C (INT0_vect ReceivedCode_C sc) = OCR1C sc
    \<and> OCR1A (INT0_vect ReceivedCode_C sc) = OCR1A sc
    \<and> OCR1C (loop_B now sb) = OCR1C sb \<and> OCR1A (loop_B now sb) = OCR1A sb
    \<and> OCR1C (loop_C now sc) = OCR1C sc \<and> OCR1A (loop_C now sc) = OCR1A sc
    \<and> emitted s (TIMER1_COMPA_vect (singleFrame t2 t3) s)
      = (if divider s = 0 then emitted s (singleFrame t2 t3 s) else [])
    \<and> emitted s (singleFrame t2 t3 s)
      = [DigitalWrite loadPin True, Delay_ms 10, DigitalWrite loadPin False,
         DigitalWrite startPin True, Delay_ms t2, DigitalWrite startPin False,
         DigitalWrite loadPin True, Delay_ms t3, DigitalWrite loadPin False]
    \<and> divider (TIMER1_COMPA_vect (singleFrame t2 t3) s)
      = int16_rem (divider s + 1) (postscaler s)
    \<and> postscaler (TIMER1_COMPA_vect (singleFrame t2 t3) s) = postscaler s
    \<and> (0 \<le> sint (divider s) \<and> sint (divider s) < sint (postscaler s) \<longrightarrow>
         sint (divider (TIMER1_COMPA_vect (singleFrame t2 t3) s))
           = (sint (divider s) + 1) mod sint (postscaler s))
    \<and> (0 < sint (postscaler s) \<and> divider s = 0 \<longrightarrow>
         (\<forall>n. (emitted ((TIMER1_COMPA_vect (singleFrame t2 t3) ^^ n) s)
                  ((TIMER1_COMPA_vect (singleFrame t2 t3) ^^ Suc n) s) \<noteq> [])
               = (int n mod sint (postscaler s) = 0)))"
proof -
  have period: "(emitted ((TIMER1_COMPA_vect (singleFrame t2 t3) ^^ n) s)
                  ((TIMER1_COMPA_vect (singleFrame t2 t3) ^^ Suc n) s) \<noteq> [])
               = (int n mod sint (postscaler s) = 0)"
    if pos: "0 < sint (postscaler s)" and zero: "divider s = 0" for n
  proof -
    let ?u = "(TIMER1_COMPA_vect (singleFrame t2 t3) ^^ n) s"
    have d: "sint (divider ?u) = int n mod sint (postscaler s)"
      using TIMER1_run [OF pos zero] by simp
    have z: "(divider ?u = 0) = (sint (divider ?u) = 0)" by (simp add: signed_eq_0_iff)
    show ?thesis
      by (simp add: TIMER1_fields z d)
  qed
  have step: "sint (divider (TIMER1_COMPA_vect (singleFrame t2 t3) s))
           = (sint (divider s) + 1) mod sint (postscaler s)"
    if "0 \<le> sint (divider s)" and "sint (divider s) < sint (postscaler s)"
    using that by (simp add: TIMER1_fields divider_step)
  show ?thesis
    using period step
    by (simp add: TIMER1_fields singleFrame_eq loop_compare
        INT0_vect_compare [OF ReceivedCode_A_compare]
        INT0_vect_compare [OF ReceivedCode_B_compare]
        INT0_vect_compare [OF ReceivedCode_C_compare])
qed

theorem C6_interval_timer_witness:
  "emitted setup_A (TIMER1_COMPA_vect (singleFrame 20 50) setup_A) \<noteq> []
   \<and> emitted ((TIMER1_COMPA_vect (singleFrame 20 50) ^^ Suc 0) setup_A)
        ((TIMER1_COMPA_vect (singleFrame 20 50) ^^ Suc (Suc 0)) setup_A) = []
   \<and> emitted ((TIMER1_COMPA_vect (singleFrame 20 50) ^^ Suc (Suc 0)) setup_A)
        ((TIMER1_COMPA_vect (singleFrame 20 50) ^^ Suc (Suc (Suc 0))) setup_A) \<noteq> []
   \<and> sint (divider (TIMER1_COMPA_vect (singleFrame 20 50) setup_A)) = 1
   \<and> OCR1C (TIMER1_COMPA_vect (singleFrame 20 50) (setup_A\<lparr>newIntervalStep := 41\<rparr>)) = 41"
proof -
  have pos: "0 < sint (postscaler setup_A) \<and> divider setup_A = 0"
    and rng: "0 \<le> sint (divider setup_A) \<and> sint (divider setup_A) < sint (postscaler setup_A)"
    by (simp_all add: setup_A_def)
  note c = C6_interval_timer [where s = setup_A and ?t2.0 = 20 and ?t3.0 = 50
      and sa = setup_A and sb = "setup_B erased_rom 0" and sc = "setup_C erased_rom 0"
      and now = 0]
  from c have "0 < sint (postscaler setup_A) \<and> divider setup_A = 0 \<longrightarrow>
    (\<forall>n. (emitted ((TIMER1_COMPA_vect (singleFrame 20 50) ^^ n) setup_A)
              ((TIMER1_COMPA_vect (singleFrame 20 50) ^^ Suc n) setup_A) \<noteq> [])
          = (int n mod sint (postscaler setup_A) = 0))"
    by (elim conjE)
  from this [THEN mp, OF pos] have fires:
    "(emitted ((TIMER1_COMPA_vect (singleFrame 20 50) ^^ n) setup_A)
              ((TIMER1_COMPA_vect (singleFrame 20 50) ^^ Suc n) setup_A) \<noteq> [])
          = (int n mod sint (postscaler setup_A) = 0)" for n
    by (rule spec)
  from c have "0 \<le> sint (divider setup_A) \<and> sint (divider setup_A) < sint (postscaler setup_A)
     \<longrightarrow> sint (divider (TIMER1_COMPA_vect (singleFrame 20 50) setup_A))
       = (sint (divider setup_A) + 1) mod sint (postscaler setup_A)"
    by (elim conjE)
  from this rng have d:
    "sint (divider (TIMER1_COMPA_vect (singleFrame 20 50) setup_A))
       = (sint (divider setup_A) + 1) mod sint (postscaler setup_A)"
    by (rule mp)
  have o: "OCR1C (TIMER1_COMPA_vect (singleFrame 20 50) (setup_A\<lparr>newIntervalStep := 41\<rparr>))
      = (if newIntervalStep (setup_A\<lparr>newIntervalStep := 41\<rparr>)
            \<noteq> oldIntervalStep (setup_A\<lparr>newIntervalStep := 41\<rparr>)
         then newIntervalStep (setup_A\<lparr>newIntervalStep := 41\<rparr>)
         else OCR1C (setup_A\<lparr>newIntervalStep := 41\<rparr>))"
    using C6_interval_timer [where s = "setup_A\<lparr>newIntervalStep := 41\<rparr>"
        and ?t2.0 = 20 and ?t3.0 = 50
        and sa = setup_A and sb = "setup_B erased_rom 0" and sc = "setup_C erased_rom 0"
        and now = 0]
    by (elim conjE)
  have p: "sint (postscaler setup_A) = 2" "sint (divider setup_A) = 0"
    by (simp_all add: setup_A_def)
  have f0: "emitted setup_A (TIMER1_COMPA_vect (singleFrame 20 50) setup_A) \<noteq> []"
    using fires [of 0] by (simp add: p)
  have f1: "emitted ((TIMER1_COMPA_vect (singleFrame 20 50) ^^ Suc 0) setup_A)
        ((TIMER1_COMPA_vect (singleFrame 20 50) ^^ Suc (Suc 0)) setup_A) = []"
    using fires [of "Suc 0"] by (simp add: p)
  have f2: "emitted ((TIMER1_COMPA_vect (singleFrame 20 50) ^^ Suc (Suc 0)) setup_A)
        ((TIMER1_COMPA_vect (singleFrame 20 50) ^^ Suc (Suc (Suc 0))) setup_A) \<noteq> []"
    using fires [of "Suc (Suc 0)"] by (simp add: p)
  have d1: "sint (divider (TIMER1_COMPA_vect (singleFrame 20 50) setup_A)) = 1"
    using d by (simp add: p)
  have o1: "OCR1C (TIMER1_COMPA_vect (singleFrame 20 50) (setup_A\<lparr>newIntervalStep := 41\<rparr>)) = 41"
    using o by (simp add: setup_A_def)
  show ?thesis using f0 f1 f2 d1 o1 by (intro conjI)
qed


section \<open>The dispatcher\<close>

text \<open>
  Claim C4. The garbage guard of revision C, \<^verbatim>\<open>(key != 0xFF) || (key != 0x00)\<close> on
  the command byte of the frame, is true of every 32-bit frame, so the dispatcher of
  that revision never skips a frame because of it.
\<close>

theorem C4_garbage_guard_C:
  "garbage_guard_C d
   \<and> ReceivedCode_C Repeat s =
       (if justBooted s \<and> \<not> learnMode s then startLearning_C s
        else if learnMode s then learnKey_C s
        else normal_C Repeat s)"
proof -
  have g: "garbage_guard_C d" for d
    by (auto simp add: garbage_guard_C_def)
  show ?thesis
    using g by (auto simp add: ReceivedCode_C_def)
qed

theorem C4_garbage_guard_C_witness:
  "garbage_guard_C 0x00FF87EE \<and> garbage_guard_C 0x000087EE"
  using C4_garbage_guard_C [where d = "0x00FF87EE" and s = "setup_C erased_rom 0" and Repeat = False]
    C4_garbage_guard_C [where d = "0x000087EE" and s = "setup_C erased_rom 0" and Repeat = False]
  by (intro conjI) (erule conjunct1)+

text \<open>
  Claim C5 (revision A, which is always in normal operation). A non-repeat Play frame
  of the Apple remote met with the lightmeter line low runs \<^verbatim>\<open>startRunWithMetering\<close>,
  whose steps are exactly lightmeter on, hold on, load on, 250 ms, load off, 70 ms,
  start on; met with the lightmeter line high it runs \<^verbatim>\<open>stopRun\<close>, whose steps are
  start off, 70 ms, hold off, lightmeter off and then the 250 ms indicator pulse, and
  which resets \<open>lmMode\<close> to the first-single-shot mode. Either is followed by the
  confirmation blink. A repeat Play frame runs nothing at all.
\<close>

theorem C5_play_A:
  assumes addr: "address (receivedData s) = RC_CODE"
    and key: "key7 (receivedData s) = ALU_PLAY_KEY"
  shows
   "emitted s (startRunWithMetering s)
      = [DigitalWrite lightmeterPin True, DigitalWrite holdPin True, DigitalWrite loadPin True,
         Delay_ms 250, DigitalWrite loadPin False, Delay_ms 70, DigitalWrite startPin True]
    \<and> emitted s (stopRun s)
      = [DigitalWrite startPin False, Delay_ms 70, DigitalWrite holdPin False,
         DigitalWrite lightmeterPin False, DigitalWrite ledPin True, Delay_ms 250,
         DigitalWrite ledPin False]
    \<and> lmMode (stopRun s) = LM_MODE_1ST_SINGLESHOT
    \<and> (\<not> digitalRead lightmeterPin s \<longrightarrow>
          ReceivedCode_A False s
            = (let s1 = startRunWithMetering (s\<lparr>aluRemote := True\<rparr>);
                   s2 = (if blinkFlag s1 then blinkLED s1 else s1)
               in s2\<lparr>blinkFlag := True\<rparr>)
          \<and> emitted s (ReceivedCode_A False s)
            = emitted s (startRunWithMetering s)
              @ (if blinkFlag s
                 then [DigitalWrite ledPin True, Delay_ms 20, DigitalWrite ledPin False]
                 else []))
    \<and> (digitalRead lightmeterPin s \<longrightarrow>
          ReceivedCode_A False s
            = (let s1 = stopRun (s\<lparr>aluRemote := True\<rparr>);
                   s2 = (if blinkFlag s1 then blinkLED s1 else s1)
               in s2\<lparr>blinkFlag := True\<rparr>)
          \<and> emitted s (ReceivedCode_A False s)
            = emitted s (stopRun s)
              @ (if blinkFlag s
                 then [DigitalWrite ledPin True, Delay_ms 20, DigitalWrite ledPin False]
                 else [])
          \<and> lmMode (ReceivedCode_A False s) = LM_MODE_1ST_SINGLESHOT)
    \<and> ReceivedCode_A True s = s\<lparr>blinkFlag := True\<rparr>
    \<and> emitted s (ReceivedCode_A True s) = []"
proof -
  have start: "\<not> digitalRead lightmeterPin s \<Longrightarrow>
      ReceivedCode_A False s
            = (let s1 = startRunWithMetering (s\<lparr>aluRemote := True\<rparr>);
                   s2 = (if blinkFlag s1 then blinkLED s1 else s1)
               in s2\<lparr>blinkFlag := True\<rparr>)"
    using addr key
    by (simp add: ReceivedCode_A_def Let_def digitalRead_def split del: if_split)
  have stop: "digitalRead lightmeterPin s \<Longrightarrow>
      ReceivedCode_A False s
            = (let s1 = stopRun (s\<lparr>aluRemote := True\<rparr>);
                   s2 = (if blinkFlag s1 then blinkLED s1 else s1)
               in s2\<lparr>blinkFlag := True\<rparr>)"
    using addr key
    by (simp add: ReceivedCode_A_def Let_def digitalRead_def split del: if_split)
  have rep: "ReceivedCode_A True s = s\<lparr>blinkFlag := True\<rparr>"
    using addr key
    by (simp add: ReceivedCode_A_def Let_def split del: if_split)
  show ?thesis
    by (simp add: start stop rep Let_def play_eqs emitted_def)
qed

theorem C5_play_A_witness:
  "emitted (setup_A\<lparr>receivedData := 0x005E87EE\<rparr>)
      (ReceivedCode_A False (setup_A\<lparr>receivedData := 0x005E87EE\<rparr>))
     = [DigitalWrite lightmeterPin True, DigitalWrite holdPin True, DigitalWrite loadPin True,
        Delay_ms 250, DigitalWrite loadPin False, Delay_ms 70, DigitalWrite startPin True,
        DigitalWrite ledPin True, Delay_ms 20, DigitalWrite ledPin False]
   \<and> ReceivedCode_A True (setup_A\<lparr>receivedData := 0x005E87EE\<rparr>)
     = setup_A\<lparr>receivedData := 0x005E87EE, blinkFlag := True\<rparr>"
proof -
  let ?s = "setup_A\<lparr>receivedData := 0x005E87EE\<rparr>"
  have a: "address (receivedData ?s) = RC_CODE" by code_simp
  have k: "key7 (receivedData ?s) = ALU_PLAY_KEY" by code_simp
  have low: "\<not> digitalRead lightmeterPin ?s" by code_simp
  have flag: "blinkFlag ?s" by code_simp
  note c = C5_play_A [OF a k]
  have steps: "emitted ?s (startRunWithMetering ?s)
      = [DigitalWrite lightmeterPin True, DigitalWrite holdPin True, DigitalWrite loadPin True,
         Delay_ms 250, DigitalWrite loadPin False, Delay_ms 70, DigitalWrite startPin True]"
    using c by (rule conjunct1)
  have "emitted ?s (ReceivedCode_A False ?s)
            = emitted ?s (startRunWithMetering ?s)
              @ (if blinkFlag ?s
                 then [DigitalWrite ledPin True, Delay_ms 20, DigitalWrite ledPin False]
                 else [])"
    using c [THEN conjunct2, THEN conjunct2, THEN conjunct2, THEN conjunct1, THEN mp, OF low]
    by (rule conjunct2)
  then have run: "emitted ?s (ReceivedCode_A False ?s)
     = [DigitalWrite lightmeterPin True, DigitalWrite holdPin True, DigitalWrite loadPin True,
        Delay_ms 250, DigitalWrite loadPin False, Delay_ms 70, DigitalWrite startPin True,
        DigitalWrite ledPin True, Delay_ms 20, DigitalWrite ledPin False]"
    unfolding steps using flag by simp
  have rep: "ReceivedCode_A True ?s = ?s\<lparr>blinkFlag := True\<rparr>"
    using c [THEN conjunct2, THEN conjunct2, THEN conjunct2, THEN conjunct2, THEN conjunct2]
    by (rule conjunct1)
  show ?thesis using run rep by simp
qed

text \<open>
  Claim C9, as amended. A non-repeat Play or SingleFrame (Center) frame of the Apple
  address sets \<open>aluRemote\<close> (in revision B when it is dispatched in normal operation);
  no later frame, timer interrupt or pass of the main loop clears it. With the latch
  set, a WhitePlay frame (Apple address, key \<^verbatim>\<open>0x02\<close>) starts or stops no run: in
  revision A always, after any frames in between; in revision B unless the learned Play
  code is \<^verbatim>\<open>0x02\<close> too, in which case the Play branch, which does not ask the latch,
  takes the frame.
\<close>

theorem C9_latch:
  fixes sa :: "'a machine_scheme" and sb :: machineB
  shows
   "(address d = RC_CODE \<and> (key7 d = ALU_PLAY_KEY \<or> key7 d = ALU_CENTER_KEY) \<longrightarrow>
       aluRemote (dispatch ReceivedCode_A (False, d) sa))
    \<and> (aluRemote sa \<longrightarrow> aluRemote (dispatchAll ReceivedCode_A fs sa))
    \<and> (aluRemote sa \<longrightarrow> aluRemote (TIMER1_COMPA_vect (singleFrame t2 t3) sa))
    \<and> (aluRemote sa \<and> address w = RC_CODE \<and> key7 w = WHITE_PLAY_KEY \<longrightarrow>
       \<not> startsOrStopsRun (emitted sa (dispatch ReceivedCode_A (r, w) sa)))
    \<and> (address d = RC_CODE \<and> (key7 d = ALU_PLAY_KEY \<or> key7 d = ALU_CENTER_KEY)
         \<and> address w = RC_CODE \<and> key7 w = WHITE_PLAY_KEY \<longrightarrow>
       \<not> startsOrStopsRun
           (emitted (dispatchAll ReceivedCode_A fs (dispatch ReceivedCode_A (False, d) sa))
              (dispatch ReceivedCode_A (r, w)
                 (dispatchAll ReceivedCode_A fs (dispatch ReceivedCode_A (False, d) sa)))))
    \<and> (\<not> justBooted sb \<and> \<not> learnMode sb \<and> address d = appleIrRcCode
         \<and> (key7 d = appleIrPlayKey \<or> key7 d = appleIrOneFrameKey) \<longrightarrow>
       aluRemote (dispatch ReceivedCode_B (False, d) sb))
    \<and> (aluRemote sb \<longrightarrow> aluRemote (dispatchAll ReceivedCode_B fs sb))
    \<and> (aluRemote sb \<longrightarrow> aluRemote (TIMER1_COMPA_vect (singleFrame t2 t3) sb))
    \<and> (aluRemote sb \<longrightarrow> aluRemote (loop_B now sb))
    \<and> (aluRemote sb \<and> address w = appleIrRcCode \<and> key7 w = appleIrWhitePlayKey
         \<and> learnedIrPlayKey sb \<noteq> 0x02 \<longrightarrow>
       \<not> startsOrStopsRun (emitted sb (dispatch ReceivedCode_B (r, w) sb)))"
proof -
  have setA: "aluRemote (dispatch ReceivedCode_A (False, d) s)"
    if "address d = RC_CODE" and "key7 d = ALU_PLAY_KEY \<or> key7 d = ALU_CENTER_KEY"
    for s :: "'a machine_scheme"
    using that by (simp add: dispatch_def ReceivedCode_A_latch_set)
  have whiteA: "\<not> startsOrStopsRun (emitted s (dispatch ReceivedCode_A (r, w) s))"
    if "aluRemote s" and "address w = RC_CODE" and "key7 w = WHITE_PLAY_KEY"
    for s :: "'a machine_scheme"
    using that
    by (simp add: dispatch_def ReceivedCode_A_white_ignored emitted_def startsOrStopsRun_def)
  have runA: "\<not> startsOrStopsRun
           (emitted (dispatchAll ReceivedCode_A fs (dispatch ReceivedCode_A (False, d) sa))
              (dispatch ReceivedCode_A (r, w)
                 (dispatchAll ReceivedCode_A fs (dispatch ReceivedCode_A (False, d) sa))))"
    if "address d = RC_CODE" and "key7 d = ALU_PLAY_KEY \<or> key7 d = ALU_CENTER_KEY"
      and "address w = RC_CODE" and "key7 w = WHITE_PLAY_KEY"
    using that by (intro whiteA dispatchAll_A_latch_kept setA)
  have setB: "aluRemote (dispatch ReceivedCode_B (False, d) sb)"
    if "\<not> justBooted sb" and "\<not> learnMode sb" and "address d = appleIrRcCode"
      and k: "key7 d = appleIrPlayKey \<or> key7 d = appleIrOneFrameKey"
    using that key7_guard [OF k]
    by (simp add: dispatch_def ReceivedCode_B_normal normal_B_latch_set address_def)
  have whiteB: "\<not> startsOrStopsRun (emitted sb (dispatch ReceivedCode_B (r, w) sb))"
    if "aluRemote sb" and "address w = appleIrRcCode" and "key7 w = appleIrWhitePlayKey"
      and "learnedIrPlayKey sb \<noteq> 0x02"
  proof -
    have "\<not> startsOrStopsRun (emitted (sb\<lparr>receivedData := w\<rparr>)
        (ReceivedCode_B r (sb\<lparr>receivedData := w\<rparr>)))"
      using that by (intro ReceivedCode_B_white) (simp_all add: address_def)
    then show ?thesis by (simp add: dispatch_def emitted_def)
  qed
  show ?thesis
    using setA [of sa] whiteA [of sa] runA setB whiteB
    by (simp add: dispatchAll_A_latch_kept dispatchAll_B_latch_kept handlers_latch)
qed

theorem C9_latch_witness:
  "\<not> startsOrStopsRun
       (emitted (dispatchAll ReceivedCode_A [(False, 0x000687EE)]
                   (dispatch ReceivedCode_A (False, 0x005E87EE) setup_A))
          (dispatch ReceivedCode_A (False, 0x000487EE)
             (dispatchAll ReceivedCode_A [(False, 0x000687EE)]
                (dispatch ReceivedCode_A (False, 0x005E87EE) setup_A))))
   \<and> aluRemote (dispatch ReceivedCode_B (False, 0x005E87EE) (loop_B 251 (setup_B erased_rom 0)))"
proof -
  let ?b = "loop_B 251 (setup_B erased_rom 0)"
  have ha: "address 0x005E87EE = RC_CODE
      \<and> (key7 0x005E87EE = ALU_PLAY_KEY \<or> key7 0x005E87EE = ALU_CENTER_KEY)
      \<and> address 0x000487EE = RC_CODE \<and> key7 0x000487EE = WHITE_PLAY_KEY"
    by code_simp
  have hb: "\<not> justBooted ?b \<and> \<not> learnMode ?b \<and> address 0x005E87EE = appleIrRcCode
         \<and> (key7 0x005E87EE = appleIrPlayKey \<or> key7 0x005E87EE = appleIrOneFrameKey)"
    by code_simp
  note c = C9_latch [where sa = setup_A and sb = ?b and d = "0x005E87EE" and w = "0x000487EE"
      and fs = "[(False, 0x000687EE)]" and r = False and ?t2.0 = 20 and ?t3.0 = 50 and now = 0]
  have a: "\<not> startsOrStopsRun
       (emitted (dispatchAll ReceivedCode_A [(False, 0x000687EE)]
                   (dispatch ReceivedCode_A (False, 0x005E87EE) setup_A))
          (dispatch ReceivedCode_A (False, 0x000487EE)
             (dispatchAll ReceivedCode_A [(False, 0x000687EE)]
                (dispatch ReceivedCode_A (False, 0x005E87EE) setup_A))))"
    using c [THEN conjunct2, THEN conjunct2, THEN conjunct2, THEN conjunct2, THEN conjunct1] ha
    by (rule mp)
  have b: "aluRemote (dispatch ReceivedCode_B (False, 0x005E87EE) ?b)"
    using c [THEN conjunct2, THEN conjunct2, THEN conjunct2, THEN conjunct2, THEN conjunct2,
        THEN conjunct1] hb
    by (rule mp)
  show ?thesis using a b by (rule conjI)
qed

text \<open>
  The claim as it was stated fails in revision B: with the stored profile \<open>taught_rom\<close>,
  whose Play code is \<^verbatim>\<open>0x02\<close>, the latch is set in \<open>latched_B\<close> by a non-repeat
  Play frame of the aluminium remote, and the WhitePlay frame \<^verbatim>\<open>0x000487EE\<close> that
  follows stops the run.
\<close>

theorem C9_learned_play_counterexample:
  "aluRemote latched_B
   \<and> address 0x000487EE = appleIrRcCode
   \<and> key7 0x000487EE = appleIrWhitePlayKey
   \<and> startsOrStopsRun
        (emitted latched_B (dispatch ReceivedCode_B (False, 0x000487EE) latched_B))"
  by code_simp

section \<open>The learn session\<close>

text \<open>
  Claim C1, as amended. While \<open>learnMode\<close> is true, a frame that the session takes a
  key from writes its command byte into the first slot that still reads \<^verbatim>\<open>0xFFFF\<close>,
  in the order Play, SingleFrame, IntervalToggle, Faster, Slower, DoubleSpeed, HalfSpeed.
  When that slot is the seventh, the completed profile is written to the EEPROM, once,
  and \<open>learnMode\<close> becomes false; in every other case the EEPROM is not written and
  \<open>learnMode\<close> stays true. A frame the session does not take a key from changes
  nothing. In revision B the session takes a key from the non-repeat frames of the
  captured address whose command byte is neither \<^verbatim>\<open>0xFF\<close> nor \<^verbatim>\<open>0x00\<close> (the
  garbage guard skips the others); in revision C from every frame, repeat or not, of the
  captured address.
\<close>

theorem C1_learn_session:
  fixes sb :: machineB and sc :: machineC
  shows
   "(learnMode sb \<longrightarrow>
      (learnable_B Repeat sb \<and> firstUnfilled (slots_B sb) < 7 \<longrightarrow>
         slots_B (ReceivedCode_B Repeat sb)
           = (slots_B sb)[firstUnfilled (slots_B sb) := key8 (receivedData sb)])
      \<and> (learnable_B Repeat sb \<and> firstUnfilled (slots_B sb) = 6 \<longrightarrow>
         \<not> learnMode (ReceivedCode_B Repeat sb)
         \<and> EEPROM (ReceivedCode_B Repeat sb) = profile_B (ReceivedCode_B Repeat sb)
         \<and> filter isEepromPut (emitted sb (ReceivedCode_B Repeat sb))
             = [EepromPut (profile_B (ReceivedCode_B Repeat sb))])
      \<and> (\<not> (learnable_B Repeat sb \<and> firstUnfilled (slots_B sb) = 6) \<longrightarrow>
         learnMode (ReceivedCode_B Repeat sb)
         \<and> EEPROM (ReceivedCode_B Repeat sb) = EEPROM sb
         \<and> filter isEepromPut (emitted sb (ReceivedCode_B Repeat sb)) = [])
      \<and> (\<not> learnable_B Repeat sb \<longrightarrow> ReceivedCode_B Repeat sb = sb))
    \<and> (learnMode sc \<longrightarrow>
      (learnable_C sc \<and> firstUnfilled (slots_C sc) < 7 \<longrightarrow>
         slots_C (ReceivedCode_C Repeat sc)
           = (slots_C sc)[firstUnfilled (slots_C sc) := key8 (receivedData sc)])
      \<and> (learnable_C sc \<and> firstUnfilled (slots_C sc) = 6 \<longrightarrow>
         \<not> learnMode (ReceivedCode_C Repeat sc)
         \<and> EEPROM (ReceivedCode_C Repeat sc) = profile_C (ReceivedCode_C Repeat sc)
         \<and> filter isEepromPut (emitted sc (ReceivedCode_C Repeat sc))
             = [EepromPut (profile_C (ReceivedCode_C Repeat sc))])
      \<and> (\<not> (learnable_C sc \<and> firstUnfilled (slots_C sc) = 6) \<longrightarrow>
         learnMode (ReceivedCode_C Repeat sc)
         \<and> EEPROM (ReceivedCode_C Repeat sc) = EEPROM sc
         \<and> filter isEepromPut (emitted sc (ReceivedCode_C Repeat sc)) = [])
      \<and> (\<not> learnable_C sc \<longrightarrow> ReceivedCode_C Repeat sc = sc))"
proof -
  have B: "(learnable_B Repeat sb \<and> firstUnfilled (slots_B sb) < 7 \<longrightarrow>
         slots_B (ReceivedCode_B Repeat sb)
           = (slots_B sb)[firstUnfilled (slots_B sb) := key8 (receivedData sb)])
      \<and> (learnable_B Repeat sb \<and> firstUnfilled (slots_B sb) = 6 \<longrightarrow>
         \<not> learnMode (ReceivedCode_B Repeat sb)
         \<and> EEPROM (ReceivedCode_B Repeat sb) = profile_B (ReceivedCode_B Repeat sb)
         \<and> filter isEepromPut (emitted sb (ReceivedCode_B Repeat sb))
             = [EepromPut (profile_B (ReceivedCode_B Repeat sb))])
      \<and> (\<not> (learnable_B Repeat sb \<and> firstUnfilled (slots_B sb) = 6) \<longrightarrow>
         learnMode (ReceivedCode_B Repeat sb)
         \<and> EEPROM (ReceivedCode_B Repeat sb) = EEPROM sb
         \<and> filter isEepromPut (emitted sb (ReceivedCode_B Repeat sb)) = [])
      \<and> (\<not> learnable_B Repeat sb \<longrightarrow> ReceivedCode_B Repeat sb = sb)"
    if lm: "learnMode sb"
  proof (cases "learnable_B Repeat sb")
    case True
    then have g: "garbage_guard_B (receivedData sb)"
      and a: "receivedData sb AND 0xFFFF = ucast (learnedIrRcCode sb)"
      and r: "Repeat = False"
      by (simp_all add: learnable_B_def)
    have e: "ReceivedCode_B Repeat sb = learnKey_B False sb"
      using lm g r by (simp add: ReceivedCode_B_learning)
    show ?thesis
    proof (cases "firstUnfilled (slots_B sb) = 6")
      case True
      then show ?thesis
        using learnKey_B_slot [OF a] learnKey_B_last [OF a True] \<open>learnable_B Repeat sb\<close>
        unfolding e by simp
    next
      case False
      then show ?thesis
        using learnKey_B_slot [OF a] learnKey_B_not_last [OF lm False, of False]
          \<open>learnable_B Repeat sb\<close>
        unfolding e by simp
    qed
  next
    case False
    have e: "ReceivedCode_B Repeat sb = sb"
    proof (cases "garbage_guard_B (receivedData sb)")
      case True
      with False have "\<not> (receivedData sb AND 0xFFFF = ucast (learnedIrRcCode sb) \<and> \<not> Repeat)"
        by (simp add: learnable_B_def)
      then have "learnKey_B Repeat sb = sb" by (rule learnKey_B_miss)
      with lm True show ?thesis by (simp add: ReceivedCode_B_learning)
    next
      case False
      with lm show ?thesis by (simp add: ReceivedCode_B_learning)
    qed
    show ?thesis using False lm unfolding e by (simp add: emitted_def)
  qed
  have g: "garbage_guard_C (receivedData sc)"
    by (auto simp add: garbage_guard_C_def)
  have C: "(learnable_C sc \<and> firstUnfilled (slots_C sc) < 7 \<longrightarrow>
         slots_C (ReceivedCode_C Repeat sc)
           = (slots_C sc)[firstUnfilled (slots_C sc) := key8 (receivedData sc)])
      \<and> (learnable_C sc \<and> firstUnfilled (slots_C sc) = 6 \<longrightarrow>
         \<not> learnMode (ReceivedCode_C Repeat sc)
         \<and> EEPROM (ReceivedCode_C Repeat sc) = profile_C (ReceivedCode_C Repeat sc)
         \<and> filter isEepromPut (emitted sc (ReceivedCode_C Repeat sc))
             = [EepromPut (profile_C (ReceivedCode_C Repeat sc))])
      \<and> (\<not> (learnable_C sc \<and> firstUnfilled (slots_C sc) = 6) \<longrightarrow>
         learnMode (ReceivedCode_C Repeat sc)
         \<and> EEPROM (ReceivedCode_C Repeat sc) = EEPROM sc
         \<and> filter isEepromPut (emitted sc (ReceivedCode_C Repeat sc)) = [])
      \<and> (\<not> learnable_C sc \<longrightarrow> ReceivedCode_C Repeat sc = sc)"
    if lm: "learnMode sc"
  proof (cases "learnable_C sc")
    case True
    then have a: "receivedData sc AND 0xFFFF = ucast (irRcCode sc)"
      by (simp add: learnable_C_def)
    have e: "ReceivedCode_C Repeat sc = learnKey_C sc"
      using lm g by (simp add: ReceivedCode_C_learning)
    show ?thesis
    proof (cases "firstUnfilled (slots_C sc) = 6")
      case True
      then show ?thesis
        using learnKey_C_slot [OF a] learnKey_C_last [OF a True] \<open>learnable_C sc\<close>
        unfolding e by simp
    next
      case False
      then show ?thesis
        using learnKey_C_slot [OF a] learnKey_C_not_last [OF lm False] \<open>learnable_C sc\<close>
        unfolding e by simp
    qed
  next
    case False
    then have "receivedData sc AND 0xFFFF \<noteq> ucast (irRcCode sc)"
      by (simp add: learnable_C_def)
    then have "learnKey_C sc = sc" by (rule learnKey_C_miss)
    with lm g have e: "ReceivedCode_C Repeat sc = sc"
      by (simp add: ReceivedCode_C_learning)
    show ?thesis using False lm unfolding e by (simp add: emitted_def)
  qed
  show ?thesis by (rule conjI; rule impI; (rule B | rule C); assumption)
qed

theorem C1_learn_session_witness:
  "slots_B (ReceivedCode_B False (learning_B\<lparr>receivedData := 0x00111234\<rparr>))
     = [0x11, 0xFFFF, 0xFFFF, 0xFFFF, 0xFFFF, 0xFFFF, 0xFFFF]
   \<and> \<not> learnMode (ReceivedCode_B False (sixKeys_B\<lparr>receivedData := 0x00171234\<rparr>))
   \<and> EEPROM (ReceivedCode_B False (sixKeys_B\<lparr>receivedData := 0x00171234\<rparr>))
     = \<lparr>RcCode = 0x1234, PlayKey = 0x11, OneFrameKey = 0x12, IntervalKey = 0x13,
        FasterKey = 0x14, SlowerKey = 0x15, DoubleSpeedKey = 0x16, HalfSpeedKey = 0x17\<rparr>
   \<and> ReceivedCode_B False (learning_B\<lparr>receivedData := 0x00115678\<rparr>)
     = learning_B\<lparr>receivedData := 0x00115678\<rparr>"
proof -
  let ?s1 = "learning_B\<lparr>receivedData := 0x00111234\<rparr>"
  let ?s6 = "sixKeys_B\<lparr>receivedData := 0x00171234\<rparr>"
  let ?s0 = "learning_B\<lparr>receivedData := 0x00115678\<rparr>"
  let ?c = "setup_C erased_rom 0"
  have l1: "learnMode ?s1" and l6: "learnMode ?s6" and l0: "learnMode ?s0"
    by code_simp+
  have h1: "learnable_B False ?s1 \<and> firstUnfilled (slots_B ?s1) < 7" by code_simp
  have h6: "learnable_B False ?s6 \<and> firstUnfilled (slots_B ?s6) = 6" by code_simp
  have h0: "\<not> learnable_B False ?s0" by code_simp
  have v1: "(slots_B ?s1)[firstUnfilled (slots_B ?s1) := key8 (receivedData ?s1)]
      = [0x11, 0xFFFF, 0xFFFF, 0xFFFF, 0xFFFF, 0xFFFF, 0xFFFF]"
    by code_simp
  have v6: "profile_B (ReceivedCode_B False ?s6)
      = \<lparr>RcCode = 0x1234, PlayKey = 0x11, OneFrameKey = 0x12, IntervalKey = 0x13,
        FasterKey = 0x14, SlowerKey = 0x15, DoubleSpeedKey = 0x16, HalfSpeedKey = 0x17\<rparr>"
    by code_simp
  have a: "slots_B (ReceivedCode_B False ?s1)
      = (slots_B ?s1)[firstUnfilled (slots_B ?s1) := key8 (receivedData ?s1)]"
    using C1_learn_session [where sb = ?s1 and sc = ?c and Repeat = False,
        THEN conjunct1, THEN mp, OF l1, THEN conjunct1] h1
    by (rule mp)
  have b: "\<not> learnMode (ReceivedCode_B False ?s6)
         \<and> EEPROM (ReceivedCode_B False ?s6) = profile_B (ReceivedCode_B False ?s6)
         \<and> filter isEepromPut (emitted ?s6 (ReceivedCode_B False ?s6))
             = [EepromPut (profile_B (ReceivedCode_B False ?s6))]"
    using C1_learn_session [where sb = ?s6 and sc = ?c and Repeat = False,
        THEN conjunct1, THEN mp, OF l6, THEN conjunct2, THEN conjunct1] h6
    by (rule mp)
  have c: "ReceivedCode_B False ?s0 = ?s0"
    using C1_learn_session [where sb = ?s0 and sc = ?c and Repeat = False,
        THEN conjunct1, THEN mp, OF l0, THEN conjunct2, THEN conjunct2, THEN conjunct2] h0
    by (rule mp)
  show ?thesis
    using a b c unfolding v1 v6 by simp
qed

text \<open>
  The claim as it was stated, for every non-repeat frame of the captured address, fails
  in revision B: in the session \<open>learning_B\<close> the frame \<^verbatim>\<open>0x00FF1234\<close> comes from
  the captured address \<^verbatim>\<open>0x1234\<close>, the Play slot is the first unfilled one, and the
  frame's command byte \<^verbatim>\<open>0xFF\<close> is not written into it, because the garbage guard
  skips the frame.
\<close>

theorem C1_garbage_frame_counterexample:
  "learnMode learning_B
   \<and> address 0x00FF1234 = ucast (learnedIrRcCode learning_B)
   \<and> firstUnfilled (slots_B learning_B) = 0
   \<and> slots_B (dispatch ReceivedCode_B (False, 0x00FF1234) learning_B) = slots_B learning_B
   \<and> slots_B (dispatch ReceivedCode_B (False, 0x00FF1234) learning_B)
       \<noteq> (slots_B learning_B)[0 := key8 0x00FF1234]"
  by code_simp


section \<open>The interval commands\<close>

text \<open>
  What the four commands do to the postscaler and to the staged step inside the range
  of a 16-bit \<^verbatim>\<open>int\<close>: HalfSpeed doubles a postscaler between 1 and 16383,
  DoubleSpeed halves one that is at least 1 and stops at 1; a postscaler is never 32768,
  which is no value of the type, and HalfSpeed at 16384 gives 1.
\<close>

theorem postscaler_arithmetic:
  "(1 \<le> sint (postscaler s) \<and> sint (postscaler s) < 16384 \<longrightarrow>
      sint (postscaler (halfSpeed s)) = 2 * sint (postscaler s))
   \<and> (sint (postscaler s) = 16384 \<longrightarrow> sint (postscaler (halfSpeed s)) = 1)
   \<and> (1 \<le> sint (postscaler s) \<longrightarrow>
      sint (postscaler (doubleSpeed s)) = max 1 (sint (postscaler s) div 2))
   \<and> sint (postscaler s) \<noteq> 32768"
  using halfSpeed_in_range [of s] halfSpeed_overflow [of s] doubleSpeed_postscaler [of s]
    postscaler_in_int16 [of s]
  by (intro conjI impI) simp_all

theorem postscaler_arithmetic_witness:
  "sint (postscaler (halfSpeed setup_A)) = 4
   \<and> sint (postscaler (halfSpeed (setup_A\<lparr>postscaler := 16384\<rparr>))) = 1
   \<and> sint (postscaler (doubleSpeed (setup_A\<lparr>postscaler := 1\<rparr>))) = 1"
proof -
  have h1: "1 \<le> sint (postscaler setup_A) \<and> sint (postscaler setup_A) < 16384"
    and v1: "2 * sint (postscaler setup_A) = 4"
    and h2: "sint (postscaler (setup_A\<lparr>postscaler := 16384\<rparr>)) = 16384"
    and h3: "1 \<le> sint (postscaler (setup_A\<lparr>postscaler := 1\<rparr>))"
    and v3: "max 1 (sint (postscaler (setup_A\<lparr>postscaler := 1\<rparr>)) div 2) = 1"
    by (simp_all add: setup_A_def)
  have a: "sint (postscaler (halfSpeed setup_A)) = 2 * sint (postscaler setup_A)"
    using postscaler_arithmetic [of setup_A, THEN conjunct1] h1 by (rule mp)
  have b: "sint (postscaler (halfSpeed (setup_A\<lparr>postscaler := 16384\<rparr>))) = 1"
    using postscaler_arithmetic [of "setup_A\<lparr>postscaler := 16384\<rparr>",
        THEN conjunct2, THEN conjunct1] h2 by (rule mp)
  have c: "sint (postscaler (doubleSpeed (setup_A\<lparr>postscaler := 1\<rparr>)))
      = max 1 (sint (postscaler (setup_A\<lparr>postscaler := 1\<rparr>)) div 2)"
    using postscaler_arithmetic [of "setup_A\<lparr>postscaler := 1\<rparr>",
        THEN conjunct2, THEN conjunct2, THEN conjunct1] h3 by (rule mp)
  show ?thesis using a b c unfolding v1 v3 by (intro conjI)
qed

text \<open>
  The staged-step predicate \<open>stepFloor\<close> ("a postscaler of at most 4 has a staged step
  of at least 11") holds after every Faster and every DoubleSpeed, is preserved by
  Slower, and is preserved by HalfSpeed from every postscaler below 16384.
\<close>

theorem stepFloor_preserved:
  "stepFloor (faster s)
   \<and> stepFloor (doubleSpeed s)
   \<and> (stepFloor s \<longrightarrow> stepFloor (slower s))
   \<and> (stepFloor s \<and> sint (postscaler s) < 16384 \<longrightarrow> stepFloor (halfSpeed s))"
  by (auto intro: stepFloor_faster stepFloor_doubleSpeed stepFloor_slower stepFloor_halfSpeed)

theorem stepFloor_preserved_witness:
  "stepFloor (slower setup_A) \<and> stepFloor (halfSpeed setup_A)"
proof -
  have h: "stepFloor setup_A" and p: "stepFloor setup_A \<and> sint (postscaler setup_A) < 16384"
    by (simp_all add: setup_A_def stepFloor_def)
  have a: "stepFloor (slower setup_A)"
    using stepFloor_preserved [of setup_A, THEN conjunct2, THEN conjunct2, THEN conjunct1] h
    by (rule mp)
  have b: "stepFloor (halfSpeed setup_A)"
    using stepFloor_preserved [of setup_A, THEN conjunct2, THEN conjunct2, THEN conjunct2] p
    by (rule mp)
  show ?thesis using a b by (rule conjI)
qed

text \<open>
  Claim C8 says that HalfSpeed gives \<open>min 32768 (2 * postscaler)\<close>, so 32768 from
  16384. The code, at the state reached from power-on by thirteen HalfSpeed frames
  (postscaler 16384): the 16-bit product \<^verbatim>\<open>postscaler * 2\<close> wraps to -32768,
  \<^verbatim>\<open>constrain\<close> returns its lower bound, and the postscaler is 1. Whatever an
  overflowing product gives, the postscaler, a 16-bit \<^verbatim>\<open>int\<close>, is never 32768.
\<close>

theorem C8_halfSpeed_at_16384:
  "sint (postscaler slowest_A) = 16384
   \<and> sint (postscaler (dispatch ReceivedCode_A (False, 0x000687EE) slowest_A)) = 1
   \<and> sint (postscaler (dispatch ReceivedCode_A (False, 0x000687EE) slowest_A)) \<noteq> 32768"
  by code_simp

text \<open>
  Claim C7 says that \<open>stepFloor\<close> holds initially and after every dispatcher command,
  so that no reachable state has a period below 200 ms. The code, at two reachable
  states. In \<open>slowest_short_A\<close> (postscaler 16384, staged step 1) the predicate holds,
  and one more HalfSpeed frame leaves postscaler 1 with staged step 1: the predicate is
  lost. In \<open>stale_A\<close> the predicate holds with postscaler 4 and staged step 11, but
  DoubleSpeed staged the 11 without moving \<open>oldIntervalStep\<close>, which is 11 already, so
  the timer handler sees no change and the compare register keeps the step 1.
\<close>

theorem C7_floor_lost:
  "stepFloor setup_A
   \<and> stepFloor slowest_short_A
   \<and> sint (postscaler slowest_short_A) = 16384
   \<and> uint (newIntervalStep slowest_short_A) = 1
   \<and> \<not> stepFloor (dispatch ReceivedCode_A (False, 0x000687EE) slowest_short_A)
   \<and> sint (postscaler (dispatch ReceivedCode_A (False, 0x000687EE) slowest_short_A)) = 1
   \<and> uint (newIntervalStep (dispatch ReceivedCode_A (False, 0x000687EE) slowest_short_A)) = 1
   \<and> stepFloor stale_A
   \<and> OCIE1A stale_A
   \<and> sint (postscaler stale_A) = 4
   \<and> uint (newIntervalStep stale_A) = 11
   \<and> uint (OCR1C stale_A) = 1
   \<and> uint (OCR1C (TIMER1_COMPA_vect (singleFrame 20 50) stale_A)) = 1"
  by code_simp

end
